theory Spec2Isabelle
  imports Main
begin

section \<open>The document proxy of the RAG knowledge base route\<close>

text \<open>
  The route file exports three request handlers, \<open>GET\<close> (list the documents of a
  knowledge base), \<open>POST\<close> (upload a file, have it parsed, train the knowledge base
  with the chunks) and \<open>DELETE\<close> (delete documents). Each one validates its input,
  issues one or two calls to the remote document service and reshapes the answer.

  The embedding follows the handlers statement by statement. What a handler reads from
  its surroundings (the configured key, the remote service's answers, the clock, the
  wording of the engine's own error messages) is collected in an \<open>environment\<close>;
  what it does to its surroundings (the remote calls it issues, in order) is returned
  next to the response. An exception is a value: the body of each \<open>try\<close> block
  returns \<open>Inl message\<close> where the code throws, and the handler turns it into the
  response of its \<open>catch\<close> block.

  Strings are lists of HOL characters, read as the code units \<open>0 .. 255\<close> of a
  JavaScript string.
\<close>

subsection \<open>JSON values\<close>

text \<open>
  Numbers are only tested for truthiness and produced as counts, so they are integers
  here. An object is the list of its own properties in insertion order.
\<close>

datatype json =
    JNull
  | JBool bool
  | JNum int
  | JStr string
  | JArr "json list"
  | JObj "(string \<times> json) list"

text \<open>Truthiness of a value, as \<open>!x\<close> tests it.\<close>

fun truthy :: "json \<Rightarrow> bool" where
  "truthy JNull = False"
| "truthy (JBool b) = b"
| "truthy (JNum n) = (n \<noteq> 0)"
| "truthy (JStr s) = (s \<noteq> [])"
| "truthy (JArr xs) = True"
| "truthy (JObj kvs) = True"

fun is_array :: "json \<Rightarrow> bool" where
  "is_array (JArr xs) = True"
| "is_array v = False"

text \<open>The elements of an array (and its \<open>length\<close>, as \<open>length (items v)\<close>).\<close>

fun items :: "json \<Rightarrow> json list" where
  "items (JArr xs) = xs"
| "items v = []"

text \<open>
  Reading a property \<open>v.k\<close>, and the destructuring \<open>const { k } = v\<close>: a
  TypeError on \<open>null\<close>, the own property on an object, \<open>undefined\<close> (here
  \<open>None\<close>) on anything else (no prototype has a property of the names used here).
\<close>

definition getProp :: "json \<Rightarrow> string \<Rightarrow> unit + json option" where
  "getProp v k =
     (case v of
        JNull \<Rightarrow> Inl ()
      | JObj kvs \<Rightarrow> Inr (map_of kvs k)
      | _ \<Rightarrow> Inr None)"

subsection \<open>String operations\<close>

definition startsWith :: "string \<Rightarrow> string \<Rightarrow> bool" where
  "startsWith s p = (take (length p) s = p)"

definition slice :: "string \<Rightarrow> nat \<Rightarrow> string" where
  "slice s n = drop n s"

text \<open>\<open>s.split(c)\<close> for a one-character separator: never the empty list.\<close>

fun split :: "string \<Rightarrow> char \<Rightarrow> string list" where
  "split [] c = [[]]"
| "split (x # xs) c =
     (if x = c then [] # split xs c
      else (case split xs c of [] \<Rightarrow> [[x]] | w # ws \<Rightarrow> (x # w) # ws))"

text \<open>\<open>xs.pop()\<close>: the last element, \<open>undefined\<close> on the empty array.\<close>

definition pop :: "'a list \<Rightarrow> 'a option" where
  "pop xs = (if xs = [] then None else Some (last xs))"

text \<open>
  \<open>toLowerCase\<close> on the code units below 256: the letters \<open>A .. Z\<close> and the
  capital letters of the Latin-1 block (\<open>0xC0 .. 0xDE\<close> without the
  multiplication sign \<open>0xD7\<close>) move up by 32, everything else stays.
\<close>

definition toLowerCase_char :: "char \<Rightarrow> char" where
  "toLowerCase_char c =
     (let n = (of_char c :: nat)
      in if (65 \<le> n \<and> n \<le> 90) \<or> (192 \<le> n \<and> n \<le> 222 \<and> n \<noteq> 215)
         then char_of (n + 32) else c)"

definition toLowerCase :: "string \<Rightarrow> string" where
  "toLowerCase s = map toLowerCase_char s"

subsection \<open>Documents and the list transform\<close>

datatype file_type = Pdf | Docx | Txt

datatype doc_status = Processing | Active | Failed | Deleted

record rag_document =
  fileName :: string
  fileType :: file_type
  status :: doc_status

text \<open>
  The extension as the handler reads it:
  \<open>fileName.split('.').pop()?.toLowerCase() || ''\<close>.
\<close>

definition ext_of :: "string \<Rightarrow> string" where
  "ext_of name =
     (case pop (split name (CHR ''.'')) of
        None \<Rightarrow> []
      | Some e \<Rightarrow> (if toLowerCase e = [] then [] else toLowerCase e))"

text \<open>The callback of \<open>rawDocuments.map\<close>, on a string.\<close>

definition transformDoc :: "string \<Rightarrow> rag_document" where
  "transformDoc docPath =
     (let fileName = (if startsWith docPath ''storage/'' then slice docPath 8 else docPath);
          ext = ext_of fileName;
          fileType = (if ext = ''pdf'' then Pdf else if ext = ''docx'' then Docx else Txt)
      in \<lparr>fileName = fileName, fileType = fileType, status = Active\<rparr>)"

subsection \<open>The remote service and the environment\<close>

text \<open>The uploaded file, as far as the handler looks at it.\<close>

record js_file =
  name :: string
  type :: string
  content :: string

datatype form_value = FormFile js_file | FormText string

text \<open>
  The four remote endpoints, with the values the template literals put into the URL
  under \<open>LYZR_RAG_BASE_URL\<close>. \<open>DELETE\<close> interpolates whatever value the request
  body gave for \<open>ragId\<close>.
\<close>

datatype endpoint =
    RagDocuments string
  | Parse file_type
  | RagTrain string
  | RagDocs json

datatype http_method = HGET | HPOST | HDELETE

datatype request_body =
    NoBody
  | FormData "(string \<times> form_value) list"
  | JsonBody json

record fetch_request =
  url :: endpoint
  method_of :: http_method
  headers :: "(string \<times> string) list"
  body :: request_body

text \<open>
  A response of the remote service. Reading its body can fail: \<open>Inl message\<close> is
  the rejection of \<open>response.text()\<close> or \<open>response.json()\<close> (for the latter
  also a body that is not JSON).
\<close>

record fetch_response =
  http_status :: nat
  statusText :: string
  bodyText :: "string + string"
  bodyJson :: "string + json"

definition ok :: "fetch_response \<Rightarrow> bool" where
  "ok response = (200 \<le> http_status response \<and> http_status response \<le> 299)"

datatype fetch_result = Rejected string | Resolved fetch_response

record environment =
  LYZR_API_KEY :: "string option"
  fetch :: "fetch_request \<Rightarrow> fetch_result"
  now :: string
  engineMessage :: "string \<Rightarrow> string"

text \<open>
  \<open>LYZR_API_KEY\<close> is \<open>process.env.LYZR_API_KEY\<close>, \<open>now\<close> is
  \<open>new Date().toISOString()\<close> at the moment the handler builds its answer, and
  \<open>engineMessage site\<close> is the message of the error the engine itself throws at
  \<open>site\<close>.
\<close>

definition falsy :: "string option \<Rightarrow> bool" where
  "falsy v = (case v of None \<Rightarrow> True | Some s \<Rightarrow> s = [])"

definition str :: "string option \<Rightarrow> string" where
  "str v = (case v of None \<Rightarrow> [] | Some s \<Rightarrow> s)"

subsection \<open>Responses of the proxy\<close>

record proxy_response =
  res_status :: nat
  res_body :: json

text \<open>
  \<open>NextResponse.json(body, { status })\<close>. The response constructor refuses a
  status outside \<open>200 .. 599\<close> (RangeError) and, since there is a body, a
  null-body status (TypeError).
\<close>

definition null_body_status :: "nat \<Rightarrow> bool" where
  "null_body_status st = (st = 101 \<or> st = 103 \<or> st = 204 \<or> st = 205 \<or> st = 304)"

definition NextResponse_json :: "environment \<Rightarrow> json \<Rightarrow> nat \<Rightarrow> string + proxy_response" where
  "NextResponse_json env b st =
     (if st < 200 \<or> 599 < st then Inl (engineMessage env ''Response: status out of range'')
      else if null_body_status st then Inl (engineMessage env ''Response: null body status'')
      else Inr \<lparr>res_status = st, res_body = b\<rparr>)"

text \<open>The \<open>catch\<close> block of a handler: status 500, the error's message as details.\<close>

definition catch_response :: "string \<Rightarrow> string + proxy_response \<Rightarrow> proxy_response" where
  "catch_response err r =
     (case r of
        Inr res \<Rightarrow> res
      | Inl message \<Rightarrow>
          \<lparr>res_status = 500,
           res_body = JObj [(''success'', JBool False), (''error'', JStr err),
                            (''details'', JStr message)]\<rparr>)"

definition not_configured :: json where
  "not_configured =
     JObj [(''success'', JBool False),
           (''error'', JStr ''LYZR_API_KEY not configured in .env.local'')]"

text \<open>
  \<open>xs.map(f)\<close> where \<open>f\<close> calls a string method on its argument: a TypeError at
  the first element that is not a string.
\<close>

fun map_strings :: "(string \<Rightarrow> 'a) \<Rightarrow> json list \<Rightarrow> unit + 'a list" where
  "map_strings f [] = Inr []"
| "map_strings f (JStr s # xs) =
     (case map_strings f xs of Inl u \<Rightarrow> Inl u | Inr ys \<Rightarrow> Inr (f s # ys))"
| "map_strings f (x # xs) = Inl ()"

subsection \<open>GET: list the documents\<close>

fun file_type_json :: "file_type \<Rightarrow> json" where
  "file_type_json Pdf = JStr ''pdf''"
| "file_type_json Docx = JStr ''docx''"
| "file_type_json Txt = JStr ''txt''"

fun doc_status_json :: "doc_status \<Rightarrow> json" where
  "doc_status_json Processing = JStr ''processing''"
| "doc_status_json Active = JStr ''active''"
| "doc_status_json Failed = JStr ''failed''"
| "doc_status_json Deleted = JStr ''deleted''"

definition rag_document_json :: "rag_document \<Rightarrow> json" where
  "rag_document_json d =
     JObj [(''fileName'', JStr (fileName d)), (''fileType'', file_type_json (fileType d)),
           (''status'', doc_status_json (status d))]"

definition list_request :: "string \<Rightarrow> string \<Rightarrow> fetch_request" where
  "list_request key ragId =
     \<lparr>url = RagDocuments ragId, method_of = HGET,
      headers = [(''Accept'', ''application/json''), (''x-api-key'', key)],
      body = NoBody\<rparr>"

definition list_success :: "environment \<Rightarrow> string \<Rightarrow> json list \<Rightarrow> string + proxy_response" where
  "list_success env ragId documents =
     NextResponse_json env
       (JObj [(''success'', JBool True), (''documents'', JArr documents),
              (''ragId'', JStr ragId), (''timestamp'', JStr (now env))]) 200"

definition GET_response :: "environment \<Rightarrow> string \<Rightarrow> fetch_response \<Rightarrow> string + proxy_response" where
  "GET_response env ragId response =
     (if \<not> ok response then
        (if http_status response = 404 then
           NextResponse_json env (JObj [(''success'', JBool True), (''documents'', JArr [])]) 200
         else
           (case bodyText response of
              Inl message \<Rightarrow> Inl message
            | Inr errorText \<Rightarrow>
                NextResponse_json env
                  (JObj [(''success'', JBool False),
                         (''error'', JStr (''Failed to fetch documents: '' @ statusText response)),
                         (''details'', JStr errorText)])
                  (http_status response)))
      else
        (case bodyJson response of
           Inl message \<Rightarrow> Inl message
         | Inr rawDocuments \<Rightarrow>
             (case rawDocuments of
                JArr paths \<Rightarrow>
                  (case map_strings (\<lambda>docPath. rag_document_json (transformDoc docPath)) paths of
                     Inl u \<Rightarrow> Inl (engineMessage env ''docPath.startsWith'')
                   | Inr documents \<Rightarrow> list_success env ragId documents)
              | _ \<Rightarrow> list_success env ragId [])))"

definition GET_try :: "environment \<Rightarrow> string option \<Rightarrow> fetch_request list \<times> (string + proxy_response)" where
  "GET_try env ragIdParam =
     (if falsy (LYZR_API_KEY env) then ([], NextResponse_json env not_configured 500)
      else if falsy ragIdParam then
        ([], NextResponse_json env
               (JObj [(''success'', JBool False),
                      (''error'', JStr ''ragId is required as a query parameter'')]) 400)
      else
        (let ragId = str ragIdParam;
             request = list_request (str (LYZR_API_KEY env)) ragId
         in ([request],
             (case fetch env request of
                Rejected message \<Rightarrow> Inl message
              | Resolved response \<Rightarrow> GET_response env ragId response))))"

definition GET :: "environment \<Rightarrow> string option \<Rightarrow> fetch_request list \<times> proxy_response" where
  "GET env ragIdParam =
     (case GET_try env ragIdParam of
        (calls, r) \<Rightarrow> (calls, catch_response ''Failed to fetch documents'' r))"

subsection \<open>POST: upload, parse and train\<close>

record file_config =
  config_type :: file_type
  parser :: string

text \<open>
  The table of supported MIME types, by its own keys; \<open>None\<close> is the
  \<open>undefined\<close> of a key the table does not have. A MIME type that spells the
  name of a member of the object prototype is outside this model.
\<close>

definition FILE_TYPE_CONFIG :: "string \<Rightarrow> file_config option" where
  "FILE_TYPE_CONFIG =
     map_of
       [(''application/pdf'', \<lparr>config_type = Pdf, parser = ''pypdf''\<rparr>),
        (''application/vnd.openxmlformats-officedocument.wordprocessingml.document'',
           \<lparr>config_type = Docx, parser = ''docx2txt''\<rparr>),
        (''text/plain'', \<lparr>config_type = Txt, parser = ''txt_parser''\<rparr>)]"

text \<open>The two fields the handler reads from the multipart form, at their declared types.\<close>

record upload_form =
  form_file :: "js_file option"
  form_ragId :: "string option"

definition parseFormData :: "js_file \<Rightarrow> file_config \<Rightarrow> (string \<times> form_value) list" where
  "parseFormData file fileConfig =
     [(''file'', FormFile file), (''data_parser'', FormText (parser fileConfig)),
      (''extra_info'', FormText ''{}'')]
     @ (if config_type fileConfig = Pdf
        then [(''chunk_size'', FormText ''1000''), (''chunk_overlap'', FormText ''100'')]
        else [])"

definition parse_request :: "string \<Rightarrow> js_file \<Rightarrow> file_config \<Rightarrow> fetch_request" where
  "parse_request key file fileConfig =
     \<lparr>url = Parse (config_type fileConfig), method_of = HPOST,
      headers = [(''x-api-key'', key)],
      body = FormData (parseFormData file fileConfig)\<rparr>"

definition train_request :: "string \<Rightarrow> string \<Rightarrow> json \<Rightarrow> fetch_request" where
  "train_request key ragId documents =
     \<lparr>url = RagTrain ragId, method_of = HPOST,
      headers = [(''Accept'', ''application/json''), (''Content-Type'', ''application/json''),
                 (''x-api-key'', key)],
      body = JsonBody documents\<rparr>"

definition POST_trained ::
  "environment \<Rightarrow> js_file \<Rightarrow> file_config \<Rightarrow> string \<Rightarrow> json \<Rightarrow> fetch_response
     \<Rightarrow> string + proxy_response" where
  "POST_trained env file fileConfig ragId documents trainResponse =
     (if \<not> ok trainResponse then
        (case bodyText trainResponse of
           Inl message \<Rightarrow> Inl message
         | Inr errorText \<Rightarrow>
             NextResponse_json env
               (JObj [(''success'', JBool False),
                      (''error'', JStr (''Knowledge base training failed: '' @ statusText trainResponse)),
                      (''details'', JStr errorText)]) 500)
      else
        NextResponse_json env
          (JObj [(''success'', JBool True),
                 (''message'', JStr ''Document uploaded and trained successfully''),
                 (''fileName'', JStr (name file)),
                 (''fileType'', file_type_json (config_type fileConfig)),
                 (''documentCount'', JNum (int (length (items documents)))),
                 (''ragId'', JStr ragId),
                 (''timestamp'', JStr (now env))]) 200)"

definition invalid_parse_format :: json where
  "invalid_parse_format =
     JObj [(''success'', JBool False),
           (''error'', JStr ''Invalid response format from document parsing'')]"

definition POST_parsed ::
  "environment \<Rightarrow> string \<Rightarrow> js_file \<Rightarrow> file_config \<Rightarrow> string \<Rightarrow> fetch_response
     \<Rightarrow> fetch_request list \<times> (string + proxy_response)" where
  "POST_parsed env key file fileConfig ragId parseResponse =
     (if \<not> ok parseResponse then
        ([], (case bodyText parseResponse of
                Inl message \<Rightarrow> Inl message
              | Inr errorText \<Rightarrow>
                  NextResponse_json env
                    (JObj [(''success'', JBool False),
                           (''error'', JStr (''Document parsing failed: '' @ statusText parseResponse)),
                           (''details'', JStr errorText)]) 500))
      else
        (case bodyJson parseResponse of
           Inl message \<Rightarrow> ([], Inl message)
         | Inr parseResult \<Rightarrow>
             (case getProp parseResult ''documents'' of
                Inl u \<Rightarrow> ([], Inl (engineMessage env ''parseResult.documents''))
              | Inr None \<Rightarrow> ([], NextResponse_json env invalid_parse_format 500)
              | Inr (Some documents) \<Rightarrow>
                  (if \<not> truthy documents \<or> \<not> is_array documents then
                     ([], NextResponse_json env invalid_parse_format 500)
                   else
                     (let request = train_request key ragId documents
                      in ([request],
                          (case fetch env request of
                             Rejected message \<Rightarrow> Inl message
                           | Resolved trainResponse \<Rightarrow>
                               POST_trained env file fileConfig ragId documents trainResponse)))))))"

definition POST_try ::
  "environment \<Rightarrow> string + upload_form \<Rightarrow> fetch_request list \<times> (string + proxy_response)" where
  "POST_try env formData =
     (if falsy (LYZR_API_KEY env) then ([], NextResponse_json env not_configured 500)
      else
        (case formData of
           Inl message \<Rightarrow> ([], Inl message)
         | Inr form \<Rightarrow>
             (case form_file form of
                None \<Rightarrow>
                  ([], NextResponse_json env
                         (JObj [(''success'', JBool False), (''error'', JStr ''file is required'')]) 400)
              | Some file \<Rightarrow>
                  (if falsy (form_ragId form) then
                     ([], NextResponse_json env
                            (JObj [(''success'', JBool False), (''error'', JStr ''ragId is required'')]) 400)
                   else
                     (case FILE_TYPE_CONFIG (type file) of
                        None \<Rightarrow>
                          ([], NextResponse_json env
                                 (JObj [(''success'', JBool False),
                                        (''error'', JStr (''Unsupported file type: '' @ type file
                                           @ ''. Only PDF, DOCX, and TXT files are supported.''))]) 400)
                      | Some fileConfig \<Rightarrow>
                          (let key = str (LYZR_API_KEY env);
                               ragId = str (form_ragId form);
                               request = parse_request key file fileConfig
                           in (case fetch env request of
                                 Rejected message \<Rightarrow> ([request], Inl message)
                               | Resolved parseResponse \<Rightarrow>
                                   (case POST_parsed env key file fileConfig ragId parseResponse of
                                      (calls, r) \<Rightarrow> (request # calls, r)))))))))"

definition POST :: "environment \<Rightarrow> string + upload_form \<Rightarrow> fetch_request list \<times> proxy_response" where
  "POST env formData =
     (case POST_try env formData of
        (calls, r) \<Rightarrow> (calls, catch_response ''Failed to upload and train document'' r))"

subsection \<open>DELETE: delete documents\<close>

text \<open>The callback of \<open>documents.map\<close>, on a string.\<close>

definition formatDoc :: "string \<Rightarrow> string" where
  "formatDoc doc = (if startsWith doc ''storage/'' then doc else ''storage/'' @ doc)"

definition delete_request :: "string \<Rightarrow> json \<Rightarrow> string list \<Rightarrow> fetch_request" where
  "delete_request key ragId formattedDocuments =
     \<lparr>url = RagDocs ragId, method_of = HDELETE,
      headers = [(''Accept'', ''application/json''), (''Content-Type'', ''application/json''),
                 (''x-api-key'', key)],
      body = JsonBody (JArr (map JStr formattedDocuments))\<rparr>"

definition DELETE_response ::
  "environment \<Rightarrow> json \<Rightarrow> json \<Rightarrow> fetch_response \<Rightarrow> string + proxy_response" where
  "DELETE_response env ragId documents response =
     (if \<not> ok response then
        (let errorText = (case bodyText response of Inl message \<Rightarrow> ''Unknown error'' | Inr t \<Rightarrow> t)
         in NextResponse_json env
              (JObj [(''success'', JBool False),
                     (''error'', JStr (''Failed to delete documents: '' @ statusText response)),
                     (''details'', JStr errorText)])
              (http_status response))
      else
        NextResponse_json env
          (JObj [(''success'', JBool True),
                 (''message'', JStr ''Documents deleted successfully''),
                 (''deletedCount'', JNum (int (length (items documents)))),
                 (''ragId'', ragId),
                 (''timestamp'', JStr (now env))]) 200)"

definition ragId_required :: json where
  "ragId_required = JObj [(''success'', JBool False), (''error'', JStr ''ragId is required'')]"

definition documents_required :: json where
  "documents_required =
     JObj [(''success'', JBool False),
           (''error'', JStr ''documents array is required and must not be empty'')]"

definition DELETE_checked ::
  "environment \<Rightarrow> json option \<Rightarrow> json option \<Rightarrow> fetch_request list \<times> (string + proxy_response)" where
  "DELETE_checked env ragIdProp documentsProp =
     (case ragIdProp of
        None \<Rightarrow> ([], NextResponse_json env ragId_required 400)
      | Some ragId \<Rightarrow>
          (if \<not> truthy ragId then ([], NextResponse_json env ragId_required 400)
           else
             (case documentsProp of
                None \<Rightarrow> ([], NextResponse_json env documents_required 400)
              | Some documents \<Rightarrow>
                  (if \<not> truthy documents \<or> \<not> is_array documents \<or> length (items documents) = 0
                   then ([], NextResponse_json env documents_required 400)
                   else
                     (case map_strings formatDoc (items documents) of
                        Inl u \<Rightarrow> ([], Inl (engineMessage env ''doc.startsWith''))
                      | Inr formattedDocuments \<Rightarrow>
                          (let request =
                                 delete_request (str (LYZR_API_KEY env)) ragId formattedDocuments
                           in ([request],
                               (case fetch env request of
                                  Rejected message \<Rightarrow> Inl message
                                | Resolved response \<Rightarrow>
                                    DELETE_response env ragId documents response))))))))"

definition DELETE_try ::
  "environment \<Rightarrow> string + json \<Rightarrow> fetch_request list \<times> (string + proxy_response)" where
  "DELETE_try env requestJson =
     (if falsy (LYZR_API_KEY env) then ([], NextResponse_json env not_configured 500)
      else
        (case requestJson of
           Inl message \<Rightarrow> ([], Inl message)
         | Inr body' \<Rightarrow>
             (case getProp body' ''ragId'' of
                Inl u \<Rightarrow> ([], Inl (engineMessage env ''const { ragId, documents } = body''))
              | Inr ragIdProp \<Rightarrow>
                  (case getProp body' ''documents'' of
                     Inl u \<Rightarrow> ([], Inl (engineMessage env ''const { ragId, documents } = body''))
                   | Inr documentsProp \<Rightarrow> DELETE_checked env ragIdProp documentsProp))))"

definition DELETE :: "environment \<Rightarrow> string + json \<Rightarrow> fetch_request list \<times> proxy_response" where
  "DELETE env requestJson =
     (case DELETE_try env requestJson of
        (calls, r) \<Rightarrow> (calls, catch_response ''Failed to delete documents'' r))"

subsection \<open>The words of the specification\<close>

text \<open>
  The extension of a file name as the specification speaks of it: the text after the
  last dot, and none when the name has no dot.
\<close>

definition extension :: "string \<Rightarrow> string option" where
  "extension fname =
     (if CHR ''.'' \<in> set fname
      then Some (rev (takeWhile (\<lambda>c. c \<noteq> CHR ''.'') (rev fname)))
      else None)"

text \<open>
  The file type as the specification derives it: \<open>.pdf\<close> gives \<open>pdf\<close>,
  \<open>.docx\<close> gives \<open>docx\<close>, any other extension or none gives \<open>txt\<close>.
\<close>

definition spec_fileType :: "string \<Rightarrow> file_type" where
  "spec_fileType fname =
     (case extension fname of
        None \<Rightarrow> Txt
      | Some e \<Rightarrow> (if e = ''pdf'' then Pdf else if e = ''docx'' then Docx else Txt))"

text \<open>A name that carries the prefix \<open>storage/\<close> exactly once.\<close>

definition exactly_one_prefix :: "string \<Rightarrow> bool" where
  "exactly_one_prefix s =
     (startsWith s ''storage/'' \<and> \<not> startsWith (slice s 8) ''storage/'')"

text \<open>The parser name the specification fixes for each supported MIME type.\<close>

definition spec_parser :: "string \<Rightarrow> string" where
  "spec_parser mime =
     (if mime = ''application/pdf'' then ''pypdf''
      else if mime = ''application/vnd.openxmlformats-officedocument.wordprocessingml.document''
      then ''docx2txt''
      else ''txt_parser'')"

definition supported_types :: "string list" where
  "supported_types =
     [''application/pdf'',
      ''application/vnd.openxmlformats-officedocument.wordprocessingml.document'',
      ''text/plain'']"

text \<open>The own property names of a response body, and one of its properties.\<close>

fun keys :: "json \<Rightarrow> string list" where
  "keys (JObj kvs) = map fst kvs"
| "keys v = []"

fun property :: "json \<Rightarrow> string \<Rightarrow> json option" where
  "property (JObj kvs) k = map_of kvs k"
| "property v k = None"

subsection \<open>Example surroundings\<close>

text \<open>
  An environment with a configured key whose remote service gives one answer to the
  parse call and another to every other call.
\<close>

definition scripted_fetch :: "fetch_result \<Rightarrow> fetch_result \<Rightarrow> fetch_request \<Rightarrow> fetch_result" where
  "scripted_fetch parseAnswer otherAnswer request =
     (case url request of Parse t \<Rightarrow> parseAnswer | _ \<Rightarrow> otherAnswer)"

definition scripted_env :: "string option \<Rightarrow> fetch_result \<Rightarrow> fetch_result \<Rightarrow> environment" where
  "scripted_env key parseAnswer otherAnswer =
     \<lparr>LYZR_API_KEY = key,
      fetch = scripted_fetch parseAnswer otherAnswer,
      now = ''2025-01-01T00:00:00.000Z'',
      engineMessage = id\<rparr>"

definition json_answer :: "nat \<Rightarrow> string \<Rightarrow> json \<Rightarrow> fetch_result" where
  "json_answer st reason v =
     Resolved \<lparr>http_status = st, statusText = reason, bodyText = Inr [], bodyJson = Inr v\<rparr>"

definition text_answer :: "nat \<Rightarrow> string \<Rightarrow> string \<Rightarrow> fetch_result" where
  "text_answer st reason t =
     Resolved \<lparr>http_status = st, statusText = reason, bodyText = Inr t,
               bodyJson = Inl ''Unexpected token''\<rparr>"

definition unreadable_answer :: "nat \<Rightarrow> string \<Rightarrow> string \<Rightarrow> fetch_result" where
  "unreadable_answer st reason message =
     Resolved \<lparr>http_status = st, statusText = reason, bodyText = Inl message,
               bodyJson = Inl message\<rparr>"

definition text_file :: js_file where
  "text_file = \<lparr>name = ''notes.txt'', type = ''text/plain'', content = ''hello''\<rparr>"

definition pdf_file :: js_file where
  "pdf_file = \<lparr>name = ''report.pdf'', type = ''application/pdf'', content = ''%PDF''\<rparr>"

section \<open>Properties\<close>

subsection \<open>Auxiliary facts about the string operations\<close>

lemma split_not_Nil: "split s c \<noteq> []"
  by (induction s) (auto split: list.splits)

lemma split_no_sep: "c \<notin> set s \<Longrightarrow> split s c = [s]"
  by (induction s) auto

lemma split_sep: "c \<in> set s \<Longrightarrow> \<exists>w v vs. split s c = w # v # vs"
proof (induction s)
  case Nil
  then show ?case by simp
next
  case (Cons x xs)
  show ?case
  proof (cases "x = c")
    case True
    obtain w ws where "split xs c = w # ws"
      using split_not_Nil [of xs c] by (cases "split xs c") auto
    with True show ?thesis by simp
  next
    case False
    with Cons.prems have "c \<in> set xs" by simp
    then obtain w v vs where "split xs c = w # v # vs"
      using Cons.IH by blast
    with False show ?thesis by simp
  qed
qed

lemma last_split: "last (split s c) = rev (takeWhile (\<lambda>x. x \<noteq> c) (rev s))"
proof (induction s)
  case Nil
  then show ?case by simp
next
  case (Cons x xs)
  show ?case
  proof (cases "c \<in> set xs")
    case True
    then obtain w v vs where sp: "split xs c = w # v # vs"
      using split_sep by blast
    have "takeWhile (\<lambda>x. x \<noteq> c) (rev xs @ [x]) = takeWhile (\<lambda>x. x \<noteq> c) (rev xs)"
      using True by (intro takeWhile_append1 [of c]) auto
    with sp Cons.IH show ?thesis by simp
  next
    case False
    then have sp: "split xs c = [xs]" by (rule split_no_sep)
    have "takeWhile (\<lambda>x. x \<noteq> c) (rev xs @ [x]) = rev xs @ takeWhile (\<lambda>x. x \<noteq> c) [x]"
      using False by (intro takeWhile_append2) auto
    with sp show ?thesis by simp
  qed
qed

lemma pop_split: "pop (split s c) = Some (rev (takeWhile (\<lambda>x. x \<noteq> c) (rev s)))"
  by (simp add: pop_def split_not_Nil last_split)

lemma ext_of_extension:
  "extension fname = Some e \<Longrightarrow> ext_of fname = toLowerCase e"
  by (auto simp: ext_of_def extension_def pop_split split: if_splits)

lemma ext_of_no_extension:
  "extension fname = None \<Longrightarrow> ext_of fname = toLowerCase fname"
  by (auto simp: ext_of_def extension_def pop_def split_no_sep split: if_splits)

lemma startsWith_append: "startsWith (p @ s) p"
  by (simp add: startsWith_def)

lemma startsWith_concat:
  "startsWith s (p @ q) \<longleftrightarrow> startsWith s p \<and> startsWith (drop (length p) s) q"
proof
  assume "startsWith s (p @ q)"
  then have eq: "take (length p + length q) s = p @ q"
    by (simp add: startsWith_def)
  have "take (length p) (take (length p + length q) s) = take (length p) s"
    by simp
  with eq have a: "take (length p) s = p" by simp
  have "drop (length p) (take (length p + length q) s) = take (length q) (drop (length p) s)"
    by (simp add: drop_take)
  with eq have b: "take (length q) (drop (length p) s) = q" by simp
  from a b show "startsWith s p \<and> startsWith (drop (length p) s) q"
    by (simp add: startsWith_def)
next
  assume "startsWith s p \<and> startsWith (drop (length p) s) q"
  then have "take (length p) s = p" and "take (length q) (drop (length p) s) = q"
    by (simp_all add: startsWith_def)
  then have "take (length p + length q) s = p @ q"
    by (simp add: take_add)
  then show "startsWith s (p @ q)"
    by (simp add: startsWith_def)
qed

lemma startsWith_storage_twice:
  "startsWith s ''storage/storage/'' \<longleftrightarrow>
     startsWith s ''storage/'' \<and> startsWith (drop 8 s) ''storage/''"
proof -
  have "length ''storage/'' = 8" by simp
  then show ?thesis
    using startsWith_concat [of s "''storage/''" "''storage/''"] by (simp del: list.size)
qed

lemma map_strings_JStr: "map_strings f (map JStr xs) = Inr (map f xs)"
  by (induction xs) simp_all

lemma getProp_Inl: "getProp v k = Inl u \<longleftrightarrow> v = JNull"
  by (cases v) (simp_all add: getProp_def)

lemma is_array_JArr: "is_array v \<longleftrightarrow> (\<exists>xs. v = JArr xs)"
  by (cases v) simp_all

subsection \<open>Auxiliary facts about the handlers\<close>

lemma GET_reaches_remote:
  assumes "\<not> falsy (LYZR_API_KEY env)" and "\<not> falsy ragIdParam"
    and "fetch env (list_request (str (LYZR_API_KEY env)) (str ragIdParam)) = Resolved response"
  shows "GET env ragIdParam =
           ([list_request (str (LYZR_API_KEY env)) (str ragIdParam)],
            catch_response ''Failed to fetch documents'' (GET_response env (str ragIdParam) response))"
  using assms by (simp add: GET_def GET_try_def Let_def)

lemma GET_response_paths:
  assumes "ok response" and "bodyJson response = Inr (JArr (map JStr paths))"
  shows "GET_response env ragId response =
           Inr \<lparr>res_status = 200,
                res_body =
                  JObj [(''success'', JBool True),
                        (''documents'', JArr (map (\<lambda>p. rag_document_json (transformDoc p)) paths)),
                        (''ragId'', JStr ragId), (''timestamp'', JStr (now env))]\<rparr>"
  using assms
  by (simp add: GET_response_def map_strings_JStr list_success_def NextResponse_json_def null_body_status_def)

lemma POST_reaches_parse:
  assumes "\<not> falsy (LYZR_API_KEY env)" and "form_file form = Some file"
    and "\<not> falsy (form_ragId form)" and "FILE_TYPE_CONFIG (type file) = Some fileConfig"
  shows "POST_try env (Inr form) =
           (case fetch env (parse_request (str (LYZR_API_KEY env)) file fileConfig) of
              Rejected message \<Rightarrow>
                ([parse_request (str (LYZR_API_KEY env)) file fileConfig], Inl message)
            | Resolved parseResponse \<Rightarrow>
                (parse_request (str (LYZR_API_KEY env)) file fileConfig
                   # fst (POST_parsed env (str (LYZR_API_KEY env)) file fileConfig
                           (str (form_ragId form)) parseResponse),
                 snd (POST_parsed env (str (LYZR_API_KEY env)) file fileConfig
                        (str (form_ragId form)) parseResponse)))"
  using assms by (simp add: POST_try_def Let_def split: fetch_result.splits prod.splits)

lemma POST_parsed_documents:
  assumes "ok parseResponse" and "bodyJson parseResponse = Inr parseResult"
    and "getProp parseResult ''documents'' = Inr (Some (JArr docs))"
  shows "POST_parsed env key file fileConfig ragId parseResponse =
           ([train_request key ragId (JArr docs)],
            (case fetch env (train_request key ragId (JArr docs)) of
               Rejected message \<Rightarrow> Inl message
             | Resolved trainResponse \<Rightarrow>
                 POST_trained env file fileConfig ragId (JArr docs) trainResponse))"
  using assms by (simp add: POST_parsed_def Let_def)

lemma POST_first_call:
  assumes "\<not> falsy (LYZR_API_KEY env)" and "form_file form = Some file"
    and "\<not> falsy (form_ragId form)" and "FILE_TYPE_CONFIG (type file) = Some fileConfig"
  shows "\<exists>rest. fst (POST env (Inr form)) =
           parse_request (str (LYZR_API_KEY env)) file fileConfig # rest"
  using assms
  by (simp add: POST_def POST_reaches_parse split: prod.splits fetch_result.splits)

lemma FILE_TYPE_CONFIG_supported:
  assumes "mime \<in> set supported_types"
  shows "FILE_TYPE_CONFIG mime =
           Some \<lparr>config_type = (if mime = ''application/pdf'' then Pdf
                                else if mime = ''text/plain'' then Txt else Docx),
                 parser = spec_parser mime\<rparr>"
  using assms by (auto simp: supported_types_def FILE_TYPE_CONFIG_def spec_parser_def)

lemma DELETE_reaches_remote:
  assumes "\<not> falsy (LYZR_API_KEY env)"
    and "getProp body' ''ragId'' = Inr (Some ragId)" and "truthy ragId"
    and "getProp body' ''documents'' = Inr (Some (JArr (map JStr names)))" and "names \<noteq> []"
  shows "DELETE_try env (Inr body') =
           ([delete_request (str (LYZR_API_KEY env)) ragId (map formatDoc names)],
            (case fetch env (delete_request (str (LYZR_API_KEY env)) ragId (map formatDoc names)) of
               Rejected message \<Rightarrow> Inl message
             | Resolved response \<Rightarrow>
                 DELETE_response env ragId (JArr (map JStr names)) response))"
  using assms by (simp add: DELETE_try_def DELETE_checked_def map_strings_JStr Let_def)

lemma transformDoc_fileName:
  "fileName (transformDoc p) = (if startsWith p ''storage/'' then drop 8 p else p)"
  by (simp add: transformDoc_def Let_def slice_def)

lemma transformDoc_fileType:
  "fileType (transformDoc p) =
     (if ext_of (fileName (transformDoc p)) = ''pdf'' then Pdf
      else if ext_of (fileName (transformDoc p)) = ''docx'' then Docx else Txt)"
  by (simp add: transformDoc_def Let_def)

lemma transformDoc_status: "status (transformDoc p) = Active"
  by (simp add: transformDoc_def Let_def)

lemma formatDoc_startsWith: "startsWith (formatDoc doc) ''storage/''"
  by (simp add: formatDoc_def startsWith_def)

lemma formatDoc_exactly_one:
  "exactly_one_prefix (formatDoc doc) \<longleftrightarrow> \<not> startsWith doc ''storage/storage/''"
proof (cases "startsWith doc ''storage/''")
  case True
  then show ?thesis
    by (simp add: exactly_one_prefix_def formatDoc_def slice_def startsWith_storage_twice)
next
  case False
  have "slice (''storage/'' @ doc) 8 = doc" by (simp add: slice_def)
  with False show ?thesis
    using startsWith_append [of "''storage/''" doc]
    by (simp add: exactly_one_prefix_def formatDoc_def startsWith_storage_twice)
qed

lemma list_success_eq:
  "list_success env ragId documents =
     Inr \<lparr>res_status = 200,
          res_body =
            JObj [(''success'', JBool True), (''documents'', JArr documents),
                  (''ragId'', JStr ragId), (''timestamp'', JStr (now env))]\<rparr>"
  by (simp add: list_success_def NextResponse_json_def null_body_status_def)

lemma catch_thrown_not_success:
  "property (res_body (catch_response err (Inl message))) ''success'' = Some (JBool False)"
  by (simp add: catch_response_def)

lemma catch_error_not_success:
  "property (res_body (catch_response err
      (NextResponse_json env (JObj ((''success'', JBool False) # rest)) st))) ''success''
     = Some (JBool False)"
  by (simp add: catch_response_def NextResponse_json_def)

lemma GET_response_ok:
  assumes "ok response"
  shows "(\<exists>message. GET_response env ragId response = Inl message)
         \<or> (\<exists>documents. GET_response env ragId response = list_success env ragId documents)"
proof (cases "bodyJson response")
  case (Inl message)
  with assms show ?thesis by (simp add: GET_response_def)
next
  case (Inr rawDocuments)
  show ?thesis
  proof (cases rawDocuments)
    case (JArr paths)
    with Inr assms show ?thesis
      by (cases "map_strings (\<lambda>docPath. rag_document_json (transformDoc docPath)) paths")
         (auto simp: GET_response_def)
  qed (use Inr assms in \<open>auto simp: GET_response_def\<close>)
qed

lemma GET_response_not_ok:
  assumes "\<not> ok response" and "http_status response \<noteq> 404"
  shows "property (res_body (catch_response err (GET_response env ragId response))) ''success''
           = Some (JBool False)"
proof (cases "bodyText response")
  case (Inl message)
  with assms show ?thesis by (simp add: GET_response_def catch_thrown_not_success)
next
  case (Inr errorText)
  with assms show ?thesis by (simp add: GET_response_def catch_error_not_success)
qed

lemma GET_response_non_array:
  assumes "ok response" and "bodyJson response = Inr v" and "\<not> is_array v"
  shows "GET_response env ragId response = list_success env ragId []"
  using assms by (cases v) (simp_all add: GET_response_def)

lemma GET_not_reaching_remote:
  assumes "falsy (LYZR_API_KEY env) \<or> falsy ragIdParam"
  shows "property (res_body (snd (GET env ragIdParam))) ''success'' = Some (JBool False)"
  using assms
  by (auto simp: GET_def GET_try_def not_configured_def catch_error_not_success)

lemma GET_rejected:
  assumes "\<not> falsy (LYZR_API_KEY env)" and "\<not> falsy ragIdParam"
    and "fetch env (list_request (str (LYZR_API_KEY env)) (str ragIdParam)) = Rejected message"
  shows "property (res_body (snd (GET env ragIdParam))) ''success'' = Some (JBool False)"
  using assms by (simp add: GET_def GET_try_def Let_def catch_thrown_not_success)

lemma GET_remote_failure:
  assumes "\<not> falsy (LYZR_API_KEY env)" and "\<not> falsy ragIdParam"
    and "fetch env (list_request (str (LYZR_API_KEY env)) (str ragIdParam)) = Resolved response"
    and "\<not> ok response" and "http_status response \<noteq> 404"
    and "200 \<le> http_status response" and "http_status response \<le> 599"
    and "\<not> null_body_status (http_status response)"
    and "bodyText response = Inr errorText"
  shows "snd (GET env ragIdParam) =
           \<lparr>res_status = http_status response,
            res_body =
              JObj [(''success'', JBool False),
                    (''error'', JStr (''Failed to fetch documents: '' @ statusText response)),
                    (''details'', JStr errorText)]\<rparr>"
  using assms
  by (simp add: GET_reaches_remote GET_response_def NextResponse_json_def catch_response_def)

lemma DELETE_remote_failure:
  assumes "\<not> falsy (LYZR_API_KEY env)"
    and "getProp body' ''ragId'' = Inr (Some ragId)" and "truthy ragId"
    and "getProp body' ''documents'' = Inr (Some (JArr (map JStr names)))" and "names \<noteq> []"
    and "fetch env (delete_request (str (LYZR_API_KEY env)) ragId (map formatDoc names))
           = Resolved response"
    and "\<not> ok response"
    and "200 \<le> http_status response" and "http_status response \<le> 599"
    and "\<not> null_body_status (http_status response)"
  shows "snd (DELETE env (Inr body')) =
           \<lparr>res_status = http_status response,
            res_body =
              JObj [(''success'', JBool False),
                    (''error'', JStr (''Failed to delete documents: '' @ statusText response)),
                    (''details'',
                       JStr (case bodyText response of
                               Inl message \<Rightarrow> ''Unknown error'' | Inr t \<Rightarrow> t))]\<rparr>"
  using assms
  by (simp add: DELETE_def DELETE_reaches_remote DELETE_response_def NextResponse_json_def
        catch_response_def Let_def)

lemma POST_parse_failure:
  assumes "\<not> falsy (LYZR_API_KEY env)" and "form_file form = Some file"
    and "\<not> falsy (form_ragId form)" and "FILE_TYPE_CONFIG (type file) = Some fileConfig"
    and "fetch env (parse_request (str (LYZR_API_KEY env)) file fileConfig) = Resolved parseResponse"
    and "\<not> ok parseResponse" and "bodyText parseResponse = Inr errorText"
  shows "POST env (Inr form) =
           ([parse_request (str (LYZR_API_KEY env)) file fileConfig],
            \<lparr>res_status = 500,
             res_body =
               JObj [(''success'', JBool False),
                     (''error'', JStr (''Document parsing failed: '' @ statusText parseResponse)),
                     (''details'', JStr errorText)]\<rparr>)"
  using assms
  by (simp add: POST_def POST_reaches_parse POST_parsed_def NextResponse_json_def
        null_body_status_def catch_response_def)

lemma POST_train_failure:
  assumes "\<not> falsy (LYZR_API_KEY env)" and "form_file form = Some file"
    and "\<not> falsy (form_ragId form)" and "FILE_TYPE_CONFIG (type file) = Some fileConfig"
    and "fetch env (parse_request (str (LYZR_API_KEY env)) file fileConfig) = Resolved parseResponse"
    and "ok parseResponse" and "bodyJson parseResponse = Inr parseResult"
    and "getProp parseResult ''documents'' = Inr (Some (JArr docs))"
    and "fetch env (train_request (str (LYZR_API_KEY env)) (str (form_ragId form)) (JArr docs))
           = Resolved trainResponse"
    and "\<not> ok trainResponse" and "bodyText trainResponse = Inr errorText"
  shows "snd (POST env (Inr form)) =
           \<lparr>res_status = 500,
            res_body =
              JObj [(''success'', JBool False),
                    (''error'', JStr (''Knowledge base training failed: '' @ statusText trainResponse)),
                    (''details'', JStr errorText)]\<rparr>"
  using assms
  by (simp add: POST_def POST_reaches_parse POST_parsed_documents POST_trained_def
        NextResponse_json_def null_body_status_def catch_response_def)

lemma POST_parse_failure_any:
  assumes "\<not> falsy (LYZR_API_KEY env)" and "form_file form = Some file"
    and "\<not> falsy (form_ragId form)" and "FILE_TYPE_CONFIG (type file) = Some fileConfig"
    and "fetch env (parse_request (str (LYZR_API_KEY env)) file fileConfig) = Resolved parseResponse"
    and "\<not> ok parseResponse"
  shows "snd (POST env (Inr form)) =
           \<lparr>res_status = 500,
            res_body =
              JObj [(''success'', JBool False),
                    (''error'',
                       JStr (case bodyText parseResponse of
                               Inl message \<Rightarrow> ''Failed to upload and train document''
                             | Inr t \<Rightarrow> ''Document parsing failed: '' @ statusText parseResponse)),
                    (''details'',
                       JStr (case bodyText parseResponse of Inl message \<Rightarrow> message | Inr t \<Rightarrow> t))]\<rparr>"
proof (cases "bodyText parseResponse")
  case (Inl message)
  with assms show ?thesis
    by (simp add: POST_def POST_reaches_parse POST_parsed_def catch_response_def)
next
  case (Inr errorText)
  with assms show ?thesis by (simp add: POST_parse_failure)
qed

lemma POST_train_failure_any:
  assumes "\<not> falsy (LYZR_API_KEY env)" and "form_file form = Some file"
    and "\<not> falsy (form_ragId form)" and "FILE_TYPE_CONFIG (type file) = Some fileConfig"
    and "fetch env (parse_request (str (LYZR_API_KEY env)) file fileConfig) = Resolved parseResponse"
    and "ok parseResponse" and "bodyJson parseResponse = Inr parseResult"
    and "getProp parseResult ''documents'' = Inr (Some (JArr docs))"
    and "fetch env (train_request (str (LYZR_API_KEY env)) (str (form_ragId form)) (JArr docs))
           = Resolved trainResponse"
    and "\<not> ok trainResponse"
  shows "snd (POST env (Inr form)) =
           \<lparr>res_status = 500,
            res_body =
              JObj [(''success'', JBool False),
                    (''error'',
                       JStr (case bodyText trainResponse of
                               Inl message \<Rightarrow> ''Failed to upload and train document''
                             | Inr t \<Rightarrow> ''Knowledge base training failed: '' @ statusText trainResponse)),
                    (''details'',
                       JStr (case bodyText trainResponse of Inl message \<Rightarrow> message | Inr t \<Rightarrow> t))]\<rparr>"
proof (cases "bodyText trainResponse")
  case (Inl message)
  with assms show ?thesis
    by (simp add: POST_def POST_reaches_parse POST_parsed_documents POST_trained_def
          catch_response_def)
next
  case (Inr errorText)
  with assms show ?thesis by (simp add: POST_train_failure)
qed

lemma GET_unreadable_failure:
  assumes "\<not> falsy (LYZR_API_KEY env)" and "\<not> falsy ragIdParam"
    and "fetch env (list_request (str (LYZR_API_KEY env)) (str ragIdParam)) = Resolved response"
    and "\<not> ok response" and "http_status response \<noteq> 404"
    and "bodyText response = Inl message"
  shows "snd (GET env ragIdParam) =
           \<lparr>res_status = 500,
            res_body =
              JObj [(''success'', JBool False), (''error'', JStr ''Failed to fetch documents''),
                    (''details'', JStr message)]\<rparr>"
  using assms
  by (simp add: GET_reaches_remote GET_response_def catch_response_def)

lemma NextResponse_json_refused:
  assumes "st < 200 \<or> 599 < st \<or> null_body_status st"
  shows "\<exists>message. NextResponse_json env b st = Inl message"
  using assms by (auto simp: NextResponse_json_def)

lemma GET_status_refused:
  assumes "\<not> falsy (LYZR_API_KEY env)" and "\<not> falsy ragIdParam"
    and "fetch env (list_request (str (LYZR_API_KEY env)) (str ragIdParam)) = Resolved response"
    and "\<not> ok response" and "http_status response \<noteq> 404"
    and "http_status response < 200 \<or> 599 < http_status response
         \<or> null_body_status (http_status response)"
  shows "\<exists>details. snd (GET env ragIdParam) =
           \<lparr>res_status = 500,
            res_body =
              JObj [(''success'', JBool False), (''error'', JStr ''Failed to fetch documents''),
                    (''details'', JStr details)]\<rparr>"
proof (cases "bodyText response")
  case (Inl message)
  with assms(1-5) show ?thesis by (simp add: GET_unreadable_failure)
next
  case (Inr errorText)
  obtain message where
    "NextResponse_json env
       (JObj [(''success'', JBool False),
              (''error'', JStr (''Failed to fetch documents: '' @ statusText response)),
              (''details'', JStr errorText)])
       (http_status response) = Inl message"
    using NextResponse_json_refused [OF assms(6)] by blast
  with assms(1-5) Inr show ?thesis
    by (simp add: GET_reaches_remote GET_response_def catch_response_def)
qed

lemma DELETE_status_refused:
  assumes "\<not> falsy (LYZR_API_KEY env)"
    and "getProp body' ''ragId'' = Inr (Some ragId)" and "truthy ragId"
    and "getProp body' ''documents'' = Inr (Some (JArr (map JStr names)))" and "names \<noteq> []"
    and "fetch env (delete_request (str (LYZR_API_KEY env)) ragId (map formatDoc names))
           = Resolved response"
    and "\<not> ok response"
    and "http_status response < 200 \<or> 599 < http_status response
         \<or> null_body_status (http_status response)"
  shows "\<exists>details. snd (DELETE env (Inr body')) =
           \<lparr>res_status = 500,
            res_body =
              JObj [(''success'', JBool False), (''error'', JStr ''Failed to delete documents''),
                    (''details'', JStr details)]\<rparr>"
proof -
  obtain message where
    "NextResponse_json env
       (JObj [(''success'', JBool False),
              (''error'', JStr (''Failed to delete documents: '' @ statusText response)),
              (''details'',
                 JStr (case bodyText response of
                         Inl message \<Rightarrow> ''Unknown error'' | Inr t \<Rightarrow> t))])
       (http_status response) = Inl message"
    using NextResponse_json_refused [OF assms(8)] by blast
  with assms(1-7) show ?thesis
    by (simp add: DELETE_def DELETE_reaches_remote DELETE_response_def catch_response_def Let_def)
qed

lemma POST_parsed_invalid:
  assumes "ok parseResponse" and "bodyJson parseResponse = Inr parseResult"
    and "\<forall>docs. getProp parseResult ''documents'' \<noteq> Inr (Some (JArr docs))"
  shows "POST_parsed env key file fileConfig ragId parseResponse =
           ([], if parseResult = JNull then Inl (engineMessage env ''parseResult.documents'')
                else NextResponse_json env invalid_parse_format 500)"
proof (cases "getProp parseResult ''documents''")
  case (Inl u)
  then have "parseResult = JNull" by (simp add: getProp_Inl)
  with assms Inl show ?thesis by (simp add: POST_parsed_def)
next
  case (Inr documentsProp)
  then have notnull: "parseResult \<noteq> JNull" by (auto simp: getProp_def)
  show ?thesis
  proof (cases documentsProp)
    case None
    with assms Inr notnull show ?thesis by (simp add: POST_parsed_def)
  next
    case (Some documents)
    with assms(3) Inr have "\<not> is_array documents" by (auto simp: is_array_JArr)
    with assms Inr Some notnull show ?thesis by (simp add: POST_parsed_def)
  qed
qed

subsection \<open>Facts about the example surroundings\<close>

lemma scripted_env_simps:
  "LYZR_API_KEY (scripted_env key parseAnswer otherAnswer) = key"
  "now (scripted_env key parseAnswer otherAnswer) = ''2025-01-01T00:00:00.000Z''"
  "fetch (scripted_env key parseAnswer otherAnswer) (list_request k r) = otherAnswer"
  "fetch (scripted_env key parseAnswer otherAnswer) (parse_request k f c) = parseAnswer"
  "fetch (scripted_env key parseAnswer otherAnswer) (train_request k r d) = otherAnswer"
  "fetch (scripted_env key parseAnswer otherAnswer) (delete_request k j ns) = otherAnswer"
  by (simp_all add: scripted_env_def scripted_fetch_def list_request_def parse_request_def
        train_request_def delete_request_def)

lemma example_values:
  "\<not> falsy (Some ''secret'')" "\<not> falsy (Some ''kb1'')"
  "str (Some ''secret'') = ''secret''" "str (Some ''kb1'') = ''kb1''"
  "FILE_TYPE_CONFIG (type pdf_file) = Some \<lparr>config_type = Pdf, parser = ''pypdf''\<rparr>"
  "FILE_TYPE_CONFIG (type text_file) = Some \<lparr>config_type = Txt, parser = ''txt_parser''\<rparr>"
  by (simp_all add: falsy_def str_def FILE_TYPE_CONFIG_def pdf_file_def text_file_def)

subsection \<open>The list transform\<close>

text \<open>
  The file type is not the one the specification's wording gives at an upper-case
  extension: the handler lower-cases the extension before it compares.
\<close>

theorem list_file_type_counterexample:
  "fileType (transformDoc ''storage/notes.PDF'') = Pdf
   \<and> spec_fileType (fileName (transformDoc ''storage/notes.PDF'')) = Txt"
  by code_simp

text \<open>
  Claim C1, as the code has it. When the remote listing answers with an array of paths,
  the documents of the response are, in order and one for each path, the objects
  \<open>{fileName, fileType, status}\<close> where \<open>fileName\<close> is the path without
  one leading \<open>storage/\<close>, \<open>status\<close> is \<open>active\<close>, and
  \<open>fileType\<close> is a string fixed by the path: for a file name with a dot it is
  read from the text after the last dot, compared without regard to case (\<open>pdf\<close>
  gives \<open>pdf\<close>, \<open>docx\<close> gives \<open>docx\<close>, anything else
  \<open>txt\<close>); for a file name with no dot that is not itself \<open>pdf\<close> or
  \<open>docx\<close> it is \<open>txt\<close>.
\<close>

theorem list_transforms_each_path:
  assumes "\<not> falsy (LYZR_API_KEY env)" and "\<not> falsy ragIdParam"
    and "fetch env (list_request (str (LYZR_API_KEY env)) (str ragIdParam)) = Resolved response"
    and "ok response" and "bodyJson response = Inr (JArr (map JStr paths))"
  shows "(\<exists>typeOf.
            snd (GET env ragIdParam) =
              \<lparr>res_status = 200,
               res_body =
                 JObj [(''success'', JBool True),
                       (''documents'',
                          JArr (map (\<lambda>p. JObj [(''fileName'',
                                                  JStr (if startsWith p ''storage/'' then drop 8 p else p)),
                                               (''fileType'', JStr (typeOf p)),
                                               (''status'', JStr ''active'')]) paths)),
                       (''ragId'', JStr (str ragIdParam)), (''timestamp'', JStr (now env))]\<rparr>
            \<and> (\<forall>p e. extension (if startsWith p ''storage/'' then drop 8 p else p) = Some e \<longrightarrow>
                   typeOf p =
                     (if toLowerCase e = ''pdf'' then ''pdf''
                      else if toLowerCase e = ''docx'' then ''docx'' else ''txt''))
            \<and> (\<forall>p. extension (if startsWith p ''storage/'' then drop 8 p else p) = None
                   \<and> toLowerCase (if startsWith p ''storage/'' then drop 8 p else p) \<noteq> ''pdf''
                   \<and> toLowerCase (if startsWith p ''storage/'' then drop 8 p else p) \<noteq> ''docx'' \<longrightarrow>
                   typeOf p = ''txt''))
         \<and> (\<forall>p. fileName (transformDoc p) = (if startsWith p ''storage/'' then drop 8 p else p)
                \<and> status (transformDoc p) = Active
                \<and> (\<forall>e. extension (fileName (transformDoc p)) = Some e \<longrightarrow>
                       fileType (transformDoc p) =
                         (if toLowerCase e = ''pdf'' then Pdf
                          else if toLowerCase e = ''docx'' then Docx else Txt))
                \<and> (extension (fileName (transformDoc p)) = None
                     \<and> toLowerCase (fileName (transformDoc p)) \<noteq> ''pdf''
                     \<and> toLowerCase (fileName (transformDoc p)) \<noteq> ''docx'' \<longrightarrow>
                       fileType (transformDoc p) = Txt))"
proof -
  let ?name = "\<lambda>p. if startsWith p ''storage/'' then drop 8 p else p"
  let ?typeOf = "\<lambda>p. case fileType (transformDoc p) of
                        Pdf \<Rightarrow> ''pdf'' | Docx \<Rightarrow> ''docx'' | Txt \<Rightarrow> ''txt''"
  have byExt: "fileType (transformDoc p) =
        (if toLowerCase e = ''pdf'' then Pdf else if toLowerCase e = ''docx'' then Docx else Txt)"
    if "extension (fileName (transformDoc p)) = Some e" for p e
    using ext_of_extension [OF that] by (subst transformDoc_fileType) simp
  have noExt: "fileType (transformDoc p) = Txt"
    if "extension (fileName (transformDoc p)) = None"
      and "toLowerCase (fileName (transformDoc p)) \<noteq> ''pdf''"
      and "toLowerCase (fileName (transformDoc p)) \<noteq> ''docx''" for p
    using ext_of_no_extension [OF that(1)] that(2,3) by (subst transformDoc_fileType) simp
  have doc: "rag_document_json (transformDoc p) =
               JObj [(''fileName'', JStr (?name p)), (''fileType'', JStr (?typeOf p)),
                     (''status'', JStr ''active'')]" for p
    by (cases "fileType (transformDoc p)")
       (simp_all add: rag_document_json_def transformDoc_fileName transformDoc_status)
  have "snd (GET env ragIdParam) =
          \<lparr>res_status = 200,
           res_body =
             JObj [(''success'', JBool True),
                   (''documents'', JArr (map (\<lambda>p. rag_document_json (transformDoc p)) paths)),
                   (''ragId'', JStr (str ragIdParam)), (''timestamp'', JStr (now env))]\<rparr>"
    using assms by (simp add: GET_reaches_remote GET_response_paths catch_response_def)
  then have response:
    "snd (GET env ragIdParam) =
          \<lparr>res_status = 200,
           res_body =
             JObj [(''success'', JBool True),
                   (''documents'',
                      JArr (map (\<lambda>p. JObj [(''fileName'', JStr (?name p)),
                                           (''fileType'', JStr (?typeOf p)),
                                           (''status'', JStr ''active'')]) paths)),
                   (''ragId'', JStr (str ragIdParam)), (''timestamp'', JStr (now env))]\<rparr>"
    by (simp only: doc)
  have t1: "?typeOf p =
              (if toLowerCase e = ''pdf'' then ''pdf''
               else if toLowerCase e = ''docx'' then ''docx'' else ''txt'')"
    if "extension (?name p) = Some e" for p e
  proof -
    have "extension (fileName (transformDoc p)) = Some e"
      using that by (simp only: transformDoc_fileName)
    then show ?thesis by (simp add: byExt)
  qed
  have t2: "?typeOf p = ''txt''"
    if "extension (?name p) = None" and "toLowerCase (?name p) \<noteq> ''pdf''"
      and "toLowerCase (?name p) \<noteq> ''docx''" for p
  proof -
    have "fileType (transformDoc p) = Txt"
      using that noExt [of p] by (simp add: transformDoc_fileName)
    then show ?thesis by simp
  qed
  have first: "\<exists>typeOf.
            snd (GET env ragIdParam) =
              \<lparr>res_status = 200,
               res_body =
                 JObj [(''success'', JBool True),
                       (''documents'',
                          JArr (map (\<lambda>p. JObj [(''fileName'', JStr (?name p)),
                                               (''fileType'', JStr (typeOf p)),
                                               (''status'', JStr ''active'')]) paths)),
                       (''ragId'', JStr (str ragIdParam)), (''timestamp'', JStr (now env))]\<rparr>
            \<and> (\<forall>p e. extension (?name p) = Some e \<longrightarrow>
                   typeOf p =
                     (if toLowerCase e = ''pdf'' then ''pdf''
                      else if toLowerCase e = ''docx'' then ''docx'' else ''txt''))
            \<and> (\<forall>p. extension (?name p) = None
                   \<and> toLowerCase (?name p) \<noteq> ''pdf''
                   \<and> toLowerCase (?name p) \<noteq> ''docx'' \<longrightarrow>
                   typeOf p = ''txt'')"
    using response t1 t2 by (intro exI [of _ ?typeOf]) blast
  have second: "\<forall>p. fileName (transformDoc p) = ?name p
                \<and> status (transformDoc p) = Active
                \<and> (\<forall>e. extension (fileName (transformDoc p)) = Some e \<longrightarrow>
                       fileType (transformDoc p) =
                         (if toLowerCase e = ''pdf'' then Pdf
                          else if toLowerCase e = ''docx'' then Docx else Txt))
                \<and> (extension (fileName (transformDoc p)) = None
                     \<and> toLowerCase (fileName (transformDoc p)) \<noteq> ''pdf''
                     \<and> toLowerCase (fileName (transformDoc p)) \<noteq> ''docx'' \<longrightarrow>
                       fileType (transformDoc p) = Txt)"
    using byExt noExt transformDoc_fileName transformDoc_status by blast
  from first second show ?thesis by (rule conjI)
qed

text \<open>
  The example of the specification, and a listing with a \<open>.docx\<close> name, an
  upper-case extension and a name with no dot.
\<close>

theorem list_transforms_each_path_witness:
  "snd (GET (scripted_env (Some ''secret'') (Rejected [])
              (json_answer 200 ''OK'' (JArr [JStr ''storage/report.pdf'', JStr ''notes.txt''])))
         (Some ''kb1'')) =
     \<lparr>res_status = 200,
      res_body =
        JObj [(''success'', JBool True),
              (''documents'',
                 JArr [JObj [(''fileName'', JStr ''report.pdf''), (''fileType'', JStr ''pdf''),
                             (''status'', JStr ''active'')],
                       JObj [(''fileName'', JStr ''notes.txt''), (''fileType'', JStr ''txt''),
                             (''status'', JStr ''active'')]]),
              (''ragId'', JStr ''kb1''), (''timestamp'', JStr ''2025-01-01T00:00:00.000Z'')]\<rparr>
   \<and> snd (GET (scripted_env (Some ''secret'') (Rejected [])
              (json_answer 200 ''OK''
                 (JArr [JStr ''storage/letter.docx'', JStr ''Scan.PDF'', JStr ''README''])))
         (Some ''kb1'')) =
     \<lparr>res_status = 200,
      res_body =
        JObj [(''success'', JBool True),
              (''documents'',
                 JArr [JObj [(''fileName'', JStr ''letter.docx''), (''fileType'', JStr ''docx''),
                             (''status'', JStr ''active'')],
                       JObj [(''fileName'', JStr ''Scan.PDF''), (''fileType'', JStr ''pdf''),
                             (''status'', JStr ''active'')],
                       JObj [(''fileName'', JStr ''README''), (''fileType'', JStr ''txt''),
                             (''status'', JStr ''active'')]]),
              (''ragId'', JStr ''kb1''), (''timestamp'', JStr ''2025-01-01T00:00:00.000Z'')]\<rparr>
   \<and> fileType (transformDoc ''storage/letter.docx'') = Docx"
proof -
  let ?name = "\<lambda>p. if startsWith p ''storage/'' then drop 8 p else p"
  let ?first = "[''storage/report.pdf'', ''notes.txt'']"
  let ?second = "[''storage/letter.docx'', ''Scan.PDF'', ''README'']"
  have names: "?name ''storage/report.pdf'' = ''report.pdf''" "?name ''notes.txt'' = ''notes.txt''"
    "?name ''storage/letter.docx'' = ''letter.docx''" "?name ''Scan.PDF'' = ''Scan.PDF''"
    "?name ''README'' = ''README''"
    by (simp_all add: startsWith_def)
  have exts: "extension ''report.pdf'' = Some ''pdf''" "extension ''notes.txt'' = Some ''txt''"
    "extension ''letter.docx'' = Some ''docx''" "extension ''Scan.PDF'' = Some ''PDF''"
    "extension ''README'' = None"
    by (simp_all add: extension_def)
  have lower: "toLowerCase ''pdf'' = ''pdf''" "toLowerCase ''txt'' = ''txt''"
    "toLowerCase ''docx'' = ''docx''" "toLowerCase ''PDF'' = ''pdf''"
    "toLowerCase ''README'' = ''readme''"
    by code_simp+
  have key: "\<not> falsy (LYZR_API_KEY (scripted_env (Some ''secret'') q r))" for q r
    by (simp add: scripted_env_simps example_values)
  have given: "\<not> falsy (Some ''kb1'')" by (simp add: example_values)
  have answer: "fetch (scripted_env (Some ''secret'') (Rejected []) (json_answer 200 ''OK'' (JArr (map JStr ps))))
            (list_request (str (LYZR_API_KEY (scripted_env (Some ''secret'') (Rejected [])
                (json_answer 200 ''OK'' (JArr (map JStr ps)))))) (str (Some ''kb1'')))
          = Resolved \<lparr>http_status = 200, statusText = ''OK'', bodyText = Inr [],
                      bodyJson = Inr (JArr (map JStr ps))\<rparr>" for ps
    by (simp add: scripted_env_simps json_answer_def)
  have fine: "ok \<lparr>http_status = 200, statusText = ''OK'', bodyText = Inr [],
                   bodyJson = Inr (JArr (map JStr ps))\<rparr>" for ps
    by (simp add: ok_def)
  have body: "bodyJson \<lparr>http_status = 200, statusText = ''OK'', bodyText = Inr [],
                   bodyJson = Inr (JArr (map JStr ps))\<rparr> = Inr (JArr (map JStr ps))" for ps
    by simp
  note t = list_transforms_each_path [OF key given answer fine body]
  have a: "snd (GET (scripted_env (Some ''secret'') (Rejected [])
              (json_answer 200 ''OK'' (JArr (map JStr ?first)))) (Some ''kb1'')) =
     \<lparr>res_status = 200,
      res_body =
        JObj [(''success'', JBool True),
              (''documents'',
                 JArr [JObj [(''fileName'', JStr ''report.pdf''), (''fileType'', JStr ''pdf''),
                             (''status'', JStr ''active'')],
                       JObj [(''fileName'', JStr ''notes.txt''), (''fileType'', JStr ''txt''),
                             (''status'', JStr ''active'')]]),
              (''ragId'', JStr ''kb1''), (''timestamp'', JStr ''2025-01-01T00:00:00.000Z'')]\<rparr>"
  proof -
    from t [of ?first] obtain typeOf where
      r: "snd (GET (scripted_env (Some ''secret'') (Rejected [])
              (json_answer 200 ''OK'' (JArr (map JStr ?first)))) (Some ''kb1'')) =
              \<lparr>res_status = 200,
               res_body =
                 JObj [(''success'', JBool True),
                       (''documents'',
                          JArr (map (\<lambda>p. JObj [(''fileName'', JStr (?name p)),
                                               (''fileType'', JStr (typeOf p)),
                                               (''status'', JStr ''active'')]) ?first)),
                       (''ragId'', JStr (str (Some ''kb1''))),
                       (''timestamp'', JStr (now (scripted_env (Some ''secret'') (Rejected [])
                          (json_answer 200 ''OK'' (JArr (map JStr ?first))))))]\<rparr>"
      and e: "\<And>p e. extension (?name p) = Some e \<Longrightarrow>
                   typeOf p =
                     (if toLowerCase e = ''pdf'' then ''pdf''
                      else if toLowerCase e = ''docx'' then ''docx'' else ''txt'')"
      by blast
    have "typeOf ''storage/report.pdf'' = ''pdf''"
      using e [of "''storage/report.pdf''" "''pdf''"] by (simp only: names exts lower) simp
    moreover have "typeOf ''notes.txt'' = ''txt''"
      using e [of "''notes.txt''" "''txt''"] by (simp only: names exts lower) simp
    ultimately show ?thesis
      using r by (simp add: names scripted_env_simps example_values)
  qed
  have b: "snd (GET (scripted_env (Some ''secret'') (Rejected [])
              (json_answer 200 ''OK'' (JArr (map JStr ?second)))) (Some ''kb1'')) =
     \<lparr>res_status = 200,
      res_body =
        JObj [(''success'', JBool True),
              (''documents'',
                 JArr [JObj [(''fileName'', JStr ''letter.docx''), (''fileType'', JStr ''docx''),
                             (''status'', JStr ''active'')],
                       JObj [(''fileName'', JStr ''Scan.PDF''), (''fileType'', JStr ''pdf''),
                             (''status'', JStr ''active'')],
                       JObj [(''fileName'', JStr ''README''), (''fileType'', JStr ''txt''),
                             (''status'', JStr ''active'')]]),
              (''ragId'', JStr ''kb1''), (''timestamp'', JStr ''2025-01-01T00:00:00.000Z'')]\<rparr>"
  proof -
    from t [of ?second] obtain typeOf where
      r: "snd (GET (scripted_env (Some ''secret'') (Rejected [])
              (json_answer 200 ''OK'' (JArr (map JStr ?second)))) (Some ''kb1'')) =
              \<lparr>res_status = 200,
               res_body =
                 JObj [(''success'', JBool True),
                       (''documents'',
                          JArr (map (\<lambda>p. JObj [(''fileName'', JStr (?name p)),
                                               (''fileType'', JStr (typeOf p)),
                                               (''status'', JStr ''active'')]) ?second)),
                       (''ragId'', JStr (str (Some ''kb1''))),
                       (''timestamp'', JStr (now (scripted_env (Some ''secret'') (Rejected [])
                          (json_answer 200 ''OK'' (JArr (map JStr ?second))))))]\<rparr>"
      and e: "\<And>p e. extension (?name p) = Some e \<Longrightarrow>
                   typeOf p =
                     (if toLowerCase e = ''pdf'' then ''pdf''
                      else if toLowerCase e = ''docx'' then ''docx'' else ''txt'')"
      and n: "\<And>p. extension (?name p) = None
                   \<and> toLowerCase (?name p) \<noteq> ''pdf''
                   \<and> toLowerCase (?name p) \<noteq> ''docx'' \<Longrightarrow> typeOf p = ''txt''"
      by blast
    have "typeOf ''storage/letter.docx'' = ''docx''"
      using e [of "''storage/letter.docx''" "''docx''"] by (simp only: names exts lower) simp
    moreover have "typeOf ''Scan.PDF'' = ''pdf''"
      using e [of "''Scan.PDF''" "''PDF''"] by (simp only: names exts lower) simp
    moreover have "typeOf ''README'' = ''txt''"
      using n [of "''README''"] by (simp only: names exts lower) simp
    ultimately show ?thesis
      using r by (simp add: names scripted_env_simps example_values)
  qed
  have c: "fileType (transformDoc ''storage/letter.docx'') = Docx"
  proof -
    have "fileName (transformDoc ''storage/letter.docx'') = ''letter.docx''"
      using t [of ?first] names by simp
    then have "extension (fileName (transformDoc ''storage/letter.docx'')) = Some ''docx''"
      by (simp only: exts)
    with t [of ?first] have "fileType (transformDoc ''storage/letter.docx'') =
        (if toLowerCase ''docx'' = ''pdf'' then Pdf
         else if toLowerCase ''docx'' = ''docx'' then Docx else Txt)"
      by blast
    then show ?thesis by (simp only: lower) simp
  qed
  from a b c show ?thesis by simp
qed

text \<open>
  Applying the transform to its own file name changes the result when the path began
  with a repeated prefix: the second application strips the second prefix.
\<close>

theorem list_transform_twice_counterexample:
  "transformDoc (fileName (transformDoc ''storage/storage/a.pdf'')) \<noteq> transformDoc ''storage/storage/a.pdf''"
  by (simp add: transformDoc_def Let_def startsWith_def slice_def)

text \<open>
  Claim C9, as the code has it. For every path that does not begin with a repeated
  \<open>storage/storage/\<close>, applying the list transform to the file name it produced
  gives the same document again.
\<close>

theorem list_transform_idempotent:
  assumes "\<not> startsWith docPath ''storage/storage/''"
  shows "transformDoc (fileName (transformDoc docPath)) = transformDoc docPath"
proof -
  have "\<not> startsWith (fileName (transformDoc docPath)) ''storage/''"
    using assms by (auto simp: transformDoc_fileName startsWith_storage_twice)
  then show ?thesis
    by (simp add: transformDoc_def Let_def)
qed

text \<open>A path with one prefix.\<close>

theorem list_transform_idempotent_witness:
  "transformDoc (fileName (transformDoc ''storage/report.pdf'')) = transformDoc ''storage/report.pdf''"
proof -
  have "\<not> startsWith ''storage/report.pdf'' ''storage/storage/''"
    by (simp add: startsWith_def)
  then show ?thesis by (rule list_transform_idempotent)
qed

subsection \<open>Upload: what is sent to the parse and train endpoints\<close>

text \<open>
  Claim C2. When the parse call succeeds and its answer has a list under
  \<open>documents\<close>, the handler issues exactly two calls: the parse call, and a
  \<open>POST\<close> to the train endpoint of the knowledge base whose JSON body is that
  list, unchanged. When the train call succeeds the response is the success response
  whose \<open>documentCount\<close> is the length of the list.
\<close>

theorem train_receives_parsed_documents:
  assumes "\<not> falsy (LYZR_API_KEY env)" and "form_file form = Some file"
    and "\<not> falsy (form_ragId form)" and "FILE_TYPE_CONFIG (type file) = Some fileConfig"
    and "fetch env
           \<lparr>url = Parse (config_type fileConfig), method_of = HPOST,
            headers = [(''x-api-key'', str (LYZR_API_KEY env))],
            body = FormData
                     ([(''file'', FormFile file), (''data_parser'', FormText (parser fileConfig)),
                       (''extra_info'', FormText ''{}'')]
                      @ (if config_type fileConfig = Pdf
                         then [(''chunk_size'', FormText ''1000''),
                               (''chunk_overlap'', FormText ''100'')]
                         else []))\<rparr>
         = Resolved parseResponse"
    and "ok parseResponse" and "bodyJson parseResponse = Inr parseResult"
    and "getProp parseResult ''documents'' = Inr (Some (JArr docs))"
  shows "fst (POST env (Inr form)) =
           [\<lparr>url = Parse (config_type fileConfig), method_of = HPOST,
             headers = [(''x-api-key'', str (LYZR_API_KEY env))],
             body = FormData
                      ([(''file'', FormFile file), (''data_parser'', FormText (parser fileConfig)),
                        (''extra_info'', FormText ''{}'')]
                       @ (if config_type fileConfig = Pdf
                          then [(''chunk_size'', FormText ''1000''),
                                (''chunk_overlap'', FormText ''100'')]
                          else []))\<rparr>,
            \<lparr>url = RagTrain (str (form_ragId form)), method_of = HPOST,
             headers = [(''Accept'', ''application/json''), (''Content-Type'', ''application/json''),
                        (''x-api-key'', str (LYZR_API_KEY env))],
             body = JsonBody (JArr docs)\<rparr>]
         \<and> (\<forall>trainResponse.
               fetch env
                 \<lparr>url = RagTrain (str (form_ragId form)), method_of = HPOST,
                  headers = [(''Accept'', ''application/json''),
                             (''Content-Type'', ''application/json''),
                             (''x-api-key'', str (LYZR_API_KEY env))],
                  body = JsonBody (JArr docs)\<rparr>
                 = Resolved trainResponse \<and> ok trainResponse \<longrightarrow>
               snd (POST env (Inr form)) =
                 \<lparr>res_status = 200,
                  res_body =
                    JObj [(''success'', JBool True),
                          (''message'', JStr ''Document uploaded and trained successfully''),
                          (''fileName'', JStr (name file)),
                          (''fileType'',
                             JStr (case config_type fileConfig of
                                     Pdf \<Rightarrow> ''pdf'' | Docx \<Rightarrow> ''docx'' | Txt \<Rightarrow> ''txt'')),
                          (''documentCount'', JNum (int (length docs))),
                          (''ragId'', JStr (str (form_ragId form))),
                          (''timestamp'', JStr (now env))]\<rparr>)"
proof -
  let ?key = "str (LYZR_API_KEY env)"
  let ?ragId = "str (form_ragId form)"
  have parse: "fetch env (parse_request ?key file fileConfig) = Resolved parseResponse"
    using assms(5) by (simp add: parse_request_def parseFormData_def)
  have type_json: "file_type_json t =
      JStr (case t of Pdf \<Rightarrow> ''pdf'' | Docx \<Rightarrow> ''docx'' | Txt \<Rightarrow> ''txt'')" for t
    by (cases t) simp_all
  have calls: "fst (POST env (Inr form)) =
      [parse_request ?key file fileConfig, train_request ?key ?ragId (JArr docs)]"
    using assms(1-4,6-8) parse
    by (simp add: POST_def POST_reaches_parse POST_parsed_documents split: prod.splits)
  have answer: "snd (POST env (Inr form)) =
      \<lparr>res_status = 200,
       res_body =
         JObj [(''success'', JBool True),
               (''message'', JStr ''Document uploaded and trained successfully''),
               (''fileName'', JStr (name file)),
               (''fileType'',
                  JStr (case config_type fileConfig of
                          Pdf \<Rightarrow> ''pdf'' | Docx \<Rightarrow> ''docx'' | Txt \<Rightarrow> ''txt'')),
               (''documentCount'', JNum (int (length docs))),
               (''ragId'', JStr ?ragId),
               (''timestamp'', JStr (now env))]\<rparr>"
    if "fetch env (train_request ?key ?ragId (JArr docs)) = Resolved trainResponse"
      and "ok trainResponse" for trainResponse
    using assms(1-4,6-8) parse that
    by (simp add: POST_def POST_reaches_parse POST_parsed_documents POST_trained_def
          NextResponse_json_def null_body_status_def catch_response_def type_json
          split: prod.splits)
  from calls answer show ?thesis
    by (simp add: parse_request_def parseFormData_def train_request_def)
qed

text \<open>The example of the specification: two chunks from a plain-text file.\<close>

theorem train_receives_parsed_documents_witness:
  "POST (scripted_env (Some ''secret'')
           (json_answer 200 ''OK'' (JObj [(''documents'', JArr [JStr ''chunk1'', JStr ''chunk2''])]))
           (json_answer 200 ''OK'' (JObj [])))
     (Inr \<lparr>form_file = Some \<lparr>name = ''notes.txt'', type = ''text/plain'', content = ''hello''\<rparr>,
            form_ragId = Some ''kb1''\<rparr>) =
   ([\<lparr>url = Parse Txt, method_of = HPOST, headers = [(''x-api-key'', ''secret'')],
      body = FormData
               [(''file'', FormFile \<lparr>name = ''notes.txt'', type = ''text/plain'',
                                     content = ''hello''\<rparr>),
                (''data_parser'', FormText ''txt_parser''), (''extra_info'', FormText ''{}'')]\<rparr>,
     \<lparr>url = RagTrain ''kb1'', method_of = HPOST,
      headers = [(''Accept'', ''application/json''), (''Content-Type'', ''application/json''),
                 (''x-api-key'', ''secret'')],
      body = JsonBody (JArr [JStr ''chunk1'', JStr ''chunk2''])\<rparr>],
    \<lparr>res_status = 200,
     res_body =
       JObj [(''success'', JBool True),
             (''message'', JStr ''Document uploaded and trained successfully''),
             (''fileName'', JStr ''notes.txt''),
             (''fileType'', JStr ''txt''),
             (''documentCount'', JNum 2),
             (''ragId'', JStr ''kb1''),
             (''timestamp'', JStr ''2025-01-01T00:00:00.000Z'')]\<rparr>)"
proof -
  let ?parsed = "JObj [(''documents'', JArr [JStr ''chunk1'', JStr ''chunk2''])]"
  let ?env = "scripted_env (Some ''secret'') (json_answer 200 ''OK'' ?parsed)
                (json_answer 200 ''OK'' (JObj []))"
  let ?file = "\<lparr>name = ''notes.txt'', type = ''text/plain'', content = ''hello''\<rparr>"
  let ?form = "\<lparr>form_file = Some ?file, form_ragId = Some ''kb1''\<rparr>"
  let ?cfg = "\<lparr>config_type = Txt, parser = ''txt_parser''\<rparr>"
  let ?parseResponse = "\<lparr>http_status = 200, statusText = ''OK'', bodyText = Inr [],
                          bodyJson = Inr ?parsed\<rparr>"
  let ?trainResponse = "\<lparr>http_status = 200, statusText = ''OK'', bodyText = Inr [],
                          bodyJson = Inr (JObj [])\<rparr>"
  have k: "str (LYZR_API_KEY ?env) = ''secret''" "str (form_ragId ?form) = ''kb1''"
    "now ?env = ''2025-01-01T00:00:00.000Z''"
    by (simp_all add: scripted_env_def str_def)
  have h1: "\<not> falsy (LYZR_API_KEY ?env)" by (simp add: scripted_env_def falsy_def)
  have h2: "form_file ?form = Some ?file" by simp
  have h3: "\<not> falsy (form_ragId ?form)" by (simp add: falsy_def)
  have h4: "FILE_TYPE_CONFIG (type ?file) = Some ?cfg"
    by (simp add: FILE_TYPE_CONFIG_def)
  have h5: "fetch ?env
           \<lparr>url = Parse (config_type ?cfg), method_of = HPOST,
            headers = [(''x-api-key'', str (LYZR_API_KEY ?env))],
            body = FormData
                     ([(''file'', FormFile ?file), (''data_parser'', FormText (parser ?cfg)),
                       (''extra_info'', FormText ''{}'')]
                      @ (if config_type ?cfg = Pdf
                         then [(''chunk_size'', FormText ''1000''),
                               (''chunk_overlap'', FormText ''100'')]
                         else []))\<rparr>
         = Resolved ?parseResponse"
    by (simp add: scripted_env_def scripted_fetch_def json_answer_def)
  have h6: "ok ?parseResponse" by (simp add: ok_def)
  have h7: "bodyJson ?parseResponse = Inr ?parsed" by simp
  have h8: "getProp ?parsed ''documents'' = Inr (Some (JArr [JStr ''chunk1'', JStr ''chunk2'']))"
    by (simp add: getProp_def)
  note t = train_receives_parsed_documents [OF h1 h2 h3 h4 h5 h6 h7 h8]
  have tr: "fetch ?env
              \<lparr>url = RagTrain (str (form_ragId ?form)), method_of = HPOST,
               headers = [(''Accept'', ''application/json''),
                          (''Content-Type'', ''application/json''),
                          (''x-api-key'', str (LYZR_API_KEY ?env))],
               body = JsonBody (JArr [JStr ''chunk1'', JStr ''chunk2''])\<rparr>
              = Resolved ?trainResponse
            \<and> ok ?trainResponse"
    by (simp add: scripted_env_def scripted_fetch_def json_answer_def ok_def)
  have "snd (POST ?env (Inr ?form)) = \<lparr>res_status = 200,
     res_body =
       JObj [(''success'', JBool True),
             (''message'', JStr ''Document uploaded and trained successfully''),
             (''fileName'', JStr ''notes.txt''),
             (''fileType'', JStr ''txt''),
             (''documentCount'', JNum 2),
             (''ragId'', JStr ''kb1''),
             (''timestamp'', JStr ''2025-01-01T00:00:00.000Z'')]\<rparr>"
    using t tr k by simp
  moreover have "fst (POST ?env (Inr ?form)) =
     [\<lparr>url = Parse Txt, method_of = HPOST, headers = [(''x-api-key'', ''secret'')],
       body = FormData
                [(''file'', FormFile ?file),
                 (''data_parser'', FormText ''txt_parser''), (''extra_info'', FormText ''{}'')]\<rparr>,
      \<lparr>url = RagTrain ''kb1'', method_of = HPOST,
       headers = [(''Accept'', ''application/json''), (''Content-Type'', ''application/json''),
                  (''x-api-key'', ''secret'')],
       body = JsonBody (JArr [JStr ''chunk1'', JStr ''chunk2''])\<rparr>]"
    using t k by simp
  ultimately show ?thesis by (simp add: prod_eq_iff)
qed

text \<open>
  Claim C3. For a file of a supported MIME type the first remote call is the parse
  call; its form carries the parser name fixed for the type as its only
  \<open>data_parser\<close>, and it carries \<open>chunk_size = 1000\<close> and
  \<open>chunk_overlap = 100\<close> when the type is PDF and no such field otherwise.
\<close>

theorem parser_and_chunking_by_type:
  assumes "\<not> falsy (LYZR_API_KEY env)" and "form_file form = Some file"
    and "\<not> falsy (form_ragId form)" and "type file \<in> set supported_types"
  shows "\<exists>t fields rest.
           fst (POST env (Inr form)) =
             \<lparr>url = Parse t, method_of = HPOST,
              headers = [(''x-api-key'', str (LYZR_API_KEY env))],
              body = FormData fields\<rparr> # rest
           \<and> {v. (''data_parser'', v) \<in> set fields} = {FormText (spec_parser (type file))}
           \<and> {v. (''chunk_size'', v) \<in> set fields} =
                 (if type file = ''application/pdf'' then {FormText ''1000''} else {})
           \<and> {v. (''chunk_overlap'', v) \<in> set fields} =
                 (if type file = ''application/pdf'' then {FormText ''100''} else {})"
proof -
  let ?cfg = "\<lparr>config_type = (if type file = ''application/pdf'' then Pdf
                                else if type file = ''text/plain'' then Txt else Docx),
               parser = spec_parser (type file)\<rparr>"
  have cfg: "FILE_TYPE_CONFIG (type file) = Some ?cfg"
    using assms(4) by (rule FILE_TYPE_CONFIG_supported)
  obtain rest where calls:
    "fst (POST env (Inr form)) = parse_request (str (LYZR_API_KEY env)) file ?cfg # rest"
    using POST_first_call [OF assms(1-3) cfg] by blast
  have "{v. (''data_parser'', v) \<in> set (parseFormData file ?cfg)} = {FormText (spec_parser (type file))}"
    by (auto simp: parseFormData_def)
  moreover have "{v. (''chunk_size'', v) \<in> set (parseFormData file ?cfg)} =
                 (if type file = ''application/pdf'' then {FormText ''1000''} else {})"
    using assms(4) by (auto simp: parseFormData_def supported_types_def)
  moreover have "{v. (''chunk_overlap'', v) \<in> set (parseFormData file ?cfg)} =
                 (if type file = ''application/pdf'' then {FormText ''100''} else {})"
    using assms(4) by (auto simp: parseFormData_def supported_types_def)
  ultimately show ?thesis
    using calls unfolding parse_request_def by blast
qed

text \<open>A PDF file and a plain-text file.\<close>

theorem parser_and_chunking_by_type_witness:
  "(\<exists>t fields rest.
      fst (POST (scripted_env (Some ''secret'') (Rejected ''offline'') (Rejected ''offline''))
             (Inr \<lparr>form_file = Some pdf_file, form_ragId = Some ''kb1''\<rparr>)) =
        \<lparr>url = Parse t, method_of = HPOST, headers = [(''x-api-key'', ''secret'')],
         body = FormData fields\<rparr> # rest
      \<and> {v. (''data_parser'', v) \<in> set fields} = {FormText ''pypdf''}
      \<and> {v. (''chunk_size'', v) \<in> set fields} = {FormText ''1000''}
      \<and> {v. (''chunk_overlap'', v) \<in> set fields} = {FormText ''100''})
   \<and> (\<exists>t fields rest.
      fst (POST (scripted_env (Some ''secret'') (Rejected ''offline'') (Rejected ''offline''))
             (Inr \<lparr>form_file = Some text_file, form_ragId = Some ''kb1''\<rparr>)) =
        \<lparr>url = Parse t, method_of = HPOST, headers = [(''x-api-key'', ''secret'')],
         body = FormData fields\<rparr> # rest
      \<and> {v. (''data_parser'', v) \<in> set fields} = {FormText ''txt_parser''}
      \<and> {v. (''chunk_size'', v) \<in> set fields} = {}
      \<and> {v. (''chunk_overlap'', v) \<in> set fields} = {})"
proof -
  let ?env = "scripted_env (Some ''secret'') (Rejected ''offline'') (Rejected ''offline'')"
  have k: "str (LYZR_API_KEY ?env) = ''secret''" by (simp add: scripted_env_def str_def)
  have h1: "\<not> falsy (LYZR_API_KEY ?env)" by (simp add: scripted_env_def falsy_def)
  have h2: "form_file \<lparr>form_file = Some f, form_ragId = Some ''kb1''\<rparr> = Some f" for f
    by simp
  have h3: "\<not> falsy (form_ragId \<lparr>form_file = Some f, form_ragId = Some ''kb1''\<rparr>)" for f
    by (simp add: falsy_def)
  have p: "type pdf_file \<in> set supported_types" "type pdf_file = ''application/pdf''"
    "spec_parser ''application/pdf'' = ''pypdf''"
    by (simp_all add: pdf_file_def supported_types_def spec_parser_def)
  have x: "type text_file \<in> set supported_types" "type text_file = ''text/plain''" "''text/plain'' \<noteq> ''application/pdf''"
    "spec_parser ''text/plain'' = ''txt_parser''"
    by (simp_all add: text_file_def supported_types_def spec_parser_def)
  have "\<exists>t fields rest.
      fst (POST ?env (Inr \<lparr>form_file = Some pdf_file, form_ragId = Some ''kb1''\<rparr>)) =
        \<lparr>url = Parse t, method_of = HPOST, headers = [(''x-api-key'', ''secret'')],
         body = FormData fields\<rparr> # rest
      \<and> {v. (''data_parser'', v) \<in> set fields} = {FormText ''pypdf''}
      \<and> {v. (''chunk_size'', v) \<in> set fields} = {FormText ''1000''}
      \<and> {v. (''chunk_overlap'', v) \<in> set fields} = {FormText ''100''}"
    using parser_and_chunking_by_type [OF h1 h2 h3 p(1)]
    by (simp only: k p(2,3) simp_thms if_True)
  moreover have "\<exists>t fields rest.
      fst (POST ?env (Inr \<lparr>form_file = Some text_file, form_ragId = Some ''kb1''\<rparr>)) =
        \<lparr>url = Parse t, method_of = HPOST, headers = [(''x-api-key'', ''secret'')],
         body = FormData fields\<rparr> # rest
      \<and> {v. (''data_parser'', v) \<in> set fields} = {FormText ''txt_parser''}
      \<and> {v. (''chunk_size'', v) \<in> set fields} = {}
      \<and> {v. (''chunk_overlap'', v) \<in> set fields} = {}"
    using parser_and_chunking_by_type [OF h1 h2 h3 x(1)]
    by (simp only: k x(2,3,4) simp_thms if_False)
  ultimately show ?thesis by blast
qed

subsection \<open>Delete: the prefix of the submitted names\<close>

text \<open>
  A name that already begins with a repeated prefix is submitted as it is, with both.
\<close>

theorem delete_prefix_counterexample:
  "\<not> exactly_one_prefix (formatDoc ''storage/storage/a.pdf'')"
  by (simp add: exactly_one_prefix_def formatDoc_def startsWith_def slice_def)

text \<open>
  Claim C5, as the code has it. A valid delete request issues one remote call, a
  \<open>DELETE\<close> to the documents endpoint of the knowledge base whose JSON body is
  the list of the input names, in order, each one normalised: a name that does not begin
  with \<open>storage/\<close> gets the prefix prepended, a name that begins with it is
  submitted as it is. So every submitted name begins with \<open>storage/\<close>, and it
  carries the prefix exactly once unless the input began with a repeated prefix.
\<close>

theorem delete_adds_missing_prefix:
  assumes "\<not> falsy (LYZR_API_KEY env)"
    and "getProp body' ''ragId'' = Inr (Some ragId)" and "truthy ragId"
    and "getProp body' ''documents'' = Inr (Some (JArr (map JStr names)))" and "names \<noteq> []"
  shows "(\<exists>submitted.
            fst (DELETE env (Inr body')) =
              [\<lparr>url = RagDocs ragId, method_of = HDELETE,
                headers = [(''Accept'', ''application/json''),
                           (''Content-Type'', ''application/json''),
                           (''x-api-key'', str (LYZR_API_KEY env))],
                body = JsonBody (JArr (map JStr submitted))\<rparr>]
            \<and> submitted =
                  map (\<lambda>doc. if startsWith doc ''storage/'' then doc else ''storage/'' @ doc) names
            \<and> (\<forall>s \<in> set submitted. startsWith s ''storage/''))
         \<and> (\<forall>doc. startsWith (formatDoc doc) ''storage/''
                \<and> (\<not> startsWith doc ''storage/'' \<longrightarrow> formatDoc doc = ''storage/'' @ doc)
                \<and> (startsWith doc ''storage/'' \<longrightarrow> formatDoc doc = doc)
                \<and> (\<not> startsWith doc ''storage/storage/'' \<longrightarrow> exactly_one_prefix (formatDoc doc)))"
proof -
  have "fst (DELETE env (Inr body')) =
          [delete_request (str (LYZR_API_KEY env)) ragId (map formatDoc names)]"
    using assms by (simp add: DELETE_def DELETE_reaches_remote)
  then have call: "fst (DELETE env (Inr body')) =
              [\<lparr>url = RagDocs ragId, method_of = HDELETE,
                headers = [(''Accept'', ''application/json''),
                           (''Content-Type'', ''application/json''),
                           (''x-api-key'', str (LYZR_API_KEY env))],
                body = JsonBody (JArr (map JStr (map formatDoc names)))\<rparr>]"
    by (simp add: delete_request_def)
  have same: "map formatDoc names =
      map (\<lambda>doc. if startsWith doc ''storage/'' then doc else ''storage/'' @ doc) names"
    by (simp add: formatDoc_def)
  have prefixed: "\<forall>s \<in> set (map formatDoc names). startsWith s ''storage/''"
    by (simp add: formatDoc_startsWith)
  have first: "\<exists>submitted.
            fst (DELETE env (Inr body')) =
              [\<lparr>url = RagDocs ragId, method_of = HDELETE,
                headers = [(''Accept'', ''application/json''),
                           (''Content-Type'', ''application/json''),
                           (''x-api-key'', str (LYZR_API_KEY env))],
                body = JsonBody (JArr (map JStr submitted))\<rparr>]
            \<and> submitted =
                  map (\<lambda>doc. if startsWith doc ''storage/'' then doc else ''storage/'' @ doc) names
            \<and> (\<forall>s \<in> set submitted. startsWith s ''storage/'')"
    using call same prefixed by (intro exI [of _ "map formatDoc names"]) blast
  have "formatDoc doc = ''storage/'' @ doc" if "\<not> startsWith doc ''storage/''" for doc
    using that by (simp add: formatDoc_def)
  moreover have "formatDoc doc = doc" if "startsWith doc ''storage/''" for doc
    using that by (simp add: formatDoc_def)
  ultimately have second: "\<forall>doc. startsWith (formatDoc doc) ''storage/''
                \<and> (\<not> startsWith doc ''storage/'' \<longrightarrow> formatDoc doc = ''storage/'' @ doc)
                \<and> (startsWith doc ''storage/'' \<longrightarrow> formatDoc doc = doc)
                \<and> (\<not> startsWith doc ''storage/storage/'' \<longrightarrow> exactly_one_prefix (formatDoc doc))"
    using formatDoc_startsWith formatDoc_exactly_one by blast
  from first second show ?thesis by (rule conjI)
qed

text \<open>The example of the specification, with a second name that has the prefix.\<close>

theorem delete_adds_missing_prefix_witness:
  "fst (DELETE (scripted_env (Some ''secret'') (Rejected []) (json_answer 200 ''OK'' JNull))
          (Inr (JObj [(''ragId'', JStr ''kb1''), (''documents'', JArr [JStr ''a.pdf'', JStr ''storage/b.txt''])]))) =
     [\<lparr>url = RagDocs (JStr ''kb1''), method_of = HDELETE,
       headers = [(''Accept'', ''application/json''), (''Content-Type'', ''application/json''),
                  (''x-api-key'', ''secret'')],
       body = JsonBody (JArr [JStr ''storage/a.pdf'', JStr ''storage/b.txt''])\<rparr>]
   \<and> formatDoc ''a.pdf'' = ''storage/a.pdf''
   \<and> formatDoc ''storage/b.txt'' = ''storage/b.txt''
   \<and> exactly_one_prefix (formatDoc ''a.pdf'')"
proof -
  let ?env = "scripted_env (Some ''secret'') (Rejected []) (json_answer 200 ''OK'' JNull)"
  let ?body = "JObj [(''ragId'', JStr ''kb1''), (''documents'', JArr [JStr ''a.pdf'', JStr ''storage/b.txt''])]"
  have h1: "\<not> falsy (LYZR_API_KEY ?env)" by (simp add: scripted_env_def falsy_def)
  have h2: "getProp ?body ''ragId'' = Inr (Some (JStr ''kb1''))" by (simp add: getProp_def)
  have h3: "truthy (JStr ''kb1'')" by simp
  have h4: "getProp ?body ''documents'' = Inr (Some (JArr (map JStr [''a.pdf'', ''storage/b.txt''])))"
    by (simp add: getProp_def)
  have h5: "[''a.pdf'', ''storage/b.txt''] \<noteq> []" by simp
  note t = delete_adds_missing_prefix [OF h1 h2 h3 h4 h5]
  have n1: "\<not> startsWith ''a.pdf'' ''storage/''" by (simp add: startsWith_def)
  have n2: "startsWith ''storage/b.txt'' ''storage/''" by (simp add: startsWith_def)
  have n3: "\<not> startsWith ''a.pdf'' ''storage/storage/''" by (simp add: startsWith_def)
  have k: "str (LYZR_API_KEY ?env) = ''secret''" by (simp add: scripted_env_def str_def)
  have f1: "formatDoc ''a.pdf'' = ''storage/a.pdf''" using t n1 by simp
  have f2: "formatDoc ''storage/b.txt'' = ''storage/b.txt''" using t n2 by simp
  have f3: "exactly_one_prefix (formatDoc ''a.pdf'')" using t n3 by blast
  from t obtain submitted where
    call: "fst (DELETE ?env (Inr ?body)) =
              [\<lparr>url = RagDocs (JStr ''kb1''), method_of = HDELETE,
                headers = [(''Accept'', ''application/json''),
                           (''Content-Type'', ''application/json''),
                           (''x-api-key'', str (LYZR_API_KEY ?env))],
                body = JsonBody (JArr (map JStr submitted))\<rparr>]"
    and names: "submitted =
         map (\<lambda>doc. if startsWith doc ''storage/'' then doc else ''storage/'' @ doc)
           [''a.pdf'', ''storage/b.txt'']"
    by blast
  have "submitted = [''storage/a.pdf'', ''storage/b.txt'']"
    using names n1 n2 by simp
  with call k have "fst (DELETE ?env (Inr ?body)) =
     [\<lparr>url = RagDocs (JStr ''kb1''), method_of = HDELETE,
       headers = [(''Accept'', ''application/json''), (''Content-Type'', ''application/json''),
                  (''x-api-key'', ''secret'')],
       body = JsonBody (JArr [JStr ''storage/a.pdf'', JStr ''storage/b.txt''])\<rparr>]"
    by simp
  with f1 f2 f3 show ?thesis by blast
qed

subsection \<open>The missing credential\<close>

text \<open>
  Claim C7. When the credential is absent (or empty), each of the three handlers
  returns the same response, \<open>{success: false, error}\<close> with status 500, and
  issues no remote call, whatever the request.
\<close>

theorem missing_credential:
  assumes "falsy (LYZR_API_KEY env)"
  shows "GET env ragIdParam =
           ([], \<lparr>res_status = 500,
                 res_body = JObj [(''success'', JBool False),
                                  (''error'', JStr ''LYZR_API_KEY not configured in .env.local'')]\<rparr>)
         \<and> POST env formData =
           ([], \<lparr>res_status = 500,
                 res_body = JObj [(''success'', JBool False),
                                  (''error'', JStr ''LYZR_API_KEY not configured in .env.local'')]\<rparr>)
         \<and> DELETE env requestJson =
           ([], \<lparr>res_status = 500,
                 res_body = JObj [(''success'', JBool False),
                                  (''error'', JStr ''LYZR_API_KEY not configured in .env.local'')]\<rparr>)"
  using assms
  by (simp add: GET_def GET_try_def POST_def POST_try_def DELETE_def DELETE_try_def
        NextResponse_json_def null_body_status_def catch_response_def not_configured_def)

text \<open>An environment without a key, and one request for each handler.\<close>

theorem missing_credential_witness:
  "GET (scripted_env None (Rejected []) (Rejected [])) (Some ''kb1'') =
     ([], \<lparr>res_status = 500,
           res_body = JObj [(''success'', JBool False),
                            (''error'', JStr ''LYZR_API_KEY not configured in .env.local'')]\<rparr>)
   \<and> POST (scripted_env None (Rejected []) (Rejected []))
        (Inr \<lparr>form_file = Some pdf_file, form_ragId = Some ''kb1''\<rparr>) =
     ([], \<lparr>res_status = 500,
           res_body = JObj [(''success'', JBool False),
                            (''error'', JStr ''LYZR_API_KEY not configured in .env.local'')]\<rparr>)
   \<and> DELETE (scripted_env None (Rejected []) (Rejected []))
        (Inr (JObj [(''ragId'', JStr ''kb1''), (''documents'', JArr [JStr ''a.pdf''])])) =
     ([], \<lparr>res_status = 500,
           res_body = JObj [(''success'', JBool False),
                            (''error'', JStr ''LYZR_API_KEY not configured in .env.local'')]\<rparr>)"
proof -
  have "falsy (LYZR_API_KEY (scripted_env None (Rejected []) (Rejected [])))"
    by (simp add: scripted_env_def falsy_def)
  then show ?thesis by (rule missing_credential)
qed

subsection \<open>List: answers of the remote listing\<close>

text \<open>
  Claim C4. With a configured key and a non-empty \<open>ragId\<close>, a remote answer with
  status 404 makes the handler return the success response
  \<open>{success: true, documents: []}\<close> (status 200) after its one remote call.
\<close>

theorem list_not_found:
  assumes "\<not> falsy (LYZR_API_KEY env)" and "\<not> falsy ragIdParam"
    and "fetch env (list_request (str (LYZR_API_KEY env)) (str ragIdParam)) = Resolved response"
    and "http_status response = 404"
  shows "GET env ragIdParam =
           ([list_request (str (LYZR_API_KEY env)) (str ragIdParam)],
            \<lparr>res_status = 200,
             res_body = JObj [(''success'', JBool True), (''documents'', JArr [])]\<rparr>)"
  using assms
  by (simp add: GET_reaches_remote GET_response_def ok_def NextResponse_json_def null_body_status_def catch_response_def)

text \<open>A remote service that answers 404.\<close>

theorem list_not_found_witness:
  "GET (scripted_env (Some ''secret'') (Rejected []) (text_answer 404 ''Not Found'' ''no documents''))
     (Some ''kb1'') =
     ([list_request ''secret'' ''kb1''],
      \<lparr>res_status = 200,
       res_body = JObj [(''success'', JBool True), (''documents'', JArr [])]\<rparr>)"
proof -
  let ?env = "scripted_env (Some ''secret'') (Rejected []) (text_answer 404 ''Not Found'' ''no documents'')"
  let ?response = "\<lparr>http_status = 404, statusText = ''Not Found'', bodyText = Inr ''no documents'',
                     bodyJson = Inl ''Unexpected token''\<rparr>"
  have k: "str (LYZR_API_KEY ?env) = ''secret''" "str (Some ''kb1'') = ''kb1''"
    by (simp_all add: scripted_env_def str_def)
  have h1: "\<not> falsy (LYZR_API_KEY ?env)" by (simp add: scripted_env_def falsy_def)
  have h2: "\<not> falsy (Some ''kb1'')" by (simp add: falsy_def)
  have h3: "fetch ?env (list_request (str (LYZR_API_KEY ?env)) (str (Some ''kb1''))) = Resolved ?response"
    by (simp add: scripted_env_def scripted_fetch_def list_request_def text_answer_def)
  have h4: "http_status ?response = 404" by simp
  show ?thesis using list_not_found [OF h1 h2 h3 h4] k by simp
qed

text \<open>
  The success response of the 404 case has the two properties \<open>success\<close> and
  \<open>documents\<close> only.
\<close>

theorem list_404_shape_counterexample:
  "property (res_body (snd (GET (scripted_env (Some ''secret'') (Rejected [])
                                   (text_answer 404 ''Not Found'' ''no documents''))
                              (Some ''kb1'')))) ''success'' = Some (JBool True)
   \<and> keys (res_body (snd (GET (scripted_env (Some ''secret'') (Rejected [])
                                   (text_answer 404 ''Not Found'' ''no documents''))
                              (Some ''kb1'')))) = [''success'', ''documents'']"
  by code_simp

text \<open>
  Claim C8, as the code has it. A successful list response is one of two: when the
  remote listing answered 404 it is exactly \<open>{success: true, documents: []}\<close>;
  otherwise it has the shape \<open>{success, documents, ragId, timestamp}\<close> with the
  requested \<open>ragId\<close> and the time of the answer.
\<close>

theorem list_success_shape:
  assumes "property (res_body (snd (GET env ragIdParam))) ''success'' = Some (JBool True)"
  shows "(if \<exists>response.
               fetch env (list_request (str (LYZR_API_KEY env)) (str ragIdParam)) = Resolved response
               \<and> http_status response = 404
          then snd (GET env ragIdParam) =
                 \<lparr>res_status = 200,
                  res_body = JObj [(''success'', JBool True), (''documents'', JArr [])]\<rparr>
          else \<exists>documents.
                 snd (GET env ragIdParam) =
                   \<lparr>res_status = 200,
                    res_body =
                      JObj [(''success'', JBool True), (''documents'', JArr documents),
                            (''ragId'', JStr (str ragIdParam)),
                            (''timestamp'', JStr (now env))]\<rparr>)"
proof -
  let ?request = "list_request (str (LYZR_API_KEY env)) (str ragIdParam)"
  have configured: "\<not> falsy (LYZR_API_KEY env)" and given: "\<not> falsy ragIdParam"
    using assms GET_not_reaching_remote [of env ragIdParam] by auto
  obtain response where resolved: "fetch env ?request = Resolved response"
    using assms GET_rejected [OF configured given] by (cases "fetch env ?request") auto
  note reached = GET_reaches_remote [OF configured given resolved]
  show ?thesis
  proof (cases "http_status response = 404")
    case True
    with resolved configured given show ?thesis
      by (simp add: GET_reaches_remote GET_response_def ok_def NextResponse_json_def
            null_body_status_def catch_response_def)
  next
    case False
    have "ok response"
      using assms reached GET_response_not_ok [OF _ False, of "''Failed to fetch documents''" env "str ragIdParam"]
      by auto
    then consider message where "GET_response env (str ragIdParam) response = Inl message"
      | documents where "GET_response env (str ragIdParam) response
                           = list_success env (str ragIdParam) documents"
      using GET_response_ok by blast
    then show ?thesis
    proof cases
      case 1
      with assms reached show ?thesis by (simp add: catch_thrown_not_success)
    next
      case 2
      with reached resolved False show ?thesis
        by (auto simp: list_success_eq catch_response_def)
    qed
  qed
qed

text \<open>A listing with one document, and a remote service that answers 404.\<close>

theorem list_success_shape_witness:
  "keys (res_body (snd (GET (scripted_env (Some ''secret'') (Rejected [])
                              (json_answer 200 ''OK'' (JArr [JStr ''storage/report.pdf''])))
                         (Some ''kb1'')))) =
     [''success'', ''documents'', ''ragId'', ''timestamp'']
   \<and> keys (res_body (snd (GET (scripted_env (Some ''secret'') (Rejected [])
                                (text_answer 404 ''Not Found'' ''no documents''))
                           (Some ''kb1'')))) =
     [''success'', ''documents'']"
proof -
  let ?e1 = "scripted_env (Some ''secret'') (Rejected [])
               (json_answer 200 ''OK'' (JArr [JStr ''storage/report.pdf'']))"
  let ?e2 = "scripted_env (Some ''secret'') (Rejected [])
               (text_answer 404 ''Not Found'' ''no documents'')"
  have s1: "property (res_body (snd (GET ?e1 (Some ''kb1'')))) ''success'' = Some (JBool True)"
    by code_simp
  have s2: "property (res_body (snd (GET ?e2 (Some ''kb1'')))) ''success'' = Some (JBool True)"
    by code_simp
  have n1: "\<not> (\<exists>response.
               fetch ?e1 (list_request (str (LYZR_API_KEY ?e1)) (str (Some ''kb1''))) = Resolved response
               \<and> http_status response = 404)"
    by (simp add: scripted_env_simps json_answer_def)
  have n2: "\<exists>response.
               fetch ?e2 (list_request (str (LYZR_API_KEY ?e2)) (str (Some ''kb1''))) = Resolved response
               \<and> http_status response = 404"
    by (simp add: scripted_env_simps text_answer_def)
  have "\<exists>documents. snd (GET ?e1 (Some ''kb1'')) =
          \<lparr>res_status = 200,
           res_body = JObj [(''success'', JBool True), (''documents'', JArr documents),
                            (''ragId'', JStr (str (Some ''kb1''))),
                            (''timestamp'', JStr (now ?e1))]\<rparr>"
    using list_success_shape [OF s1] n1 by (simp only: if_False)
  then have "keys (res_body (snd (GET ?e1 (Some ''kb1'')))) =
               [''success'', ''documents'', ''ragId'', ''timestamp'']"
    by auto
  moreover have "snd (GET ?e2 (Some ''kb1'')) =
          \<lparr>res_status = 200,
           res_body = JObj [(''success'', JBool True), (''documents'', JArr [])]\<rparr>"
    using list_success_shape [OF s2] n2 by (simp only: if_True)
  ultimately show ?thesis by simp
qed

text \<open>
  Claim C10. When the remote listing answers with a 2xx status and a JSON body that is
  not an array, the list response is the success response with no documents. The upload
  handler is stricter: when the answer of the parse call has no list under
  \<open>documents\<close>, it stops after the parse call with status 500 and
  \<open>success: false\<close>, and, unless the answer was \<open>null\<close> (where reading
  the property throws), with the error
  \<open>Invalid response format from document parsing\<close>.
\<close>

theorem non_array_listing_is_empty:
  assumes "\<not> falsy (LYZR_API_KEY env)"
  shows "(\<forall>ragIdParam response v.
            \<not> falsy ragIdParam \<longrightarrow>
            fetch env (list_request (str (LYZR_API_KEY env)) (str ragIdParam)) = Resolved response \<longrightarrow>
            ok response \<longrightarrow> bodyJson response = Inr v \<longrightarrow> \<not> is_array v \<longrightarrow>
            snd (GET env ragIdParam) =
              \<lparr>res_status = 200,
               res_body =
                 JObj [(''success'', JBool True), (''documents'', JArr []),
                       (''ragId'', JStr (str ragIdParam)), (''timestamp'', JStr (now env))]\<rparr>)
         \<and> (\<forall>form file fileConfig parseResponse parseResult.
            form_file form = Some file \<longrightarrow> \<not> falsy (form_ragId form) \<longrightarrow>
            FILE_TYPE_CONFIG (type file) = Some fileConfig \<longrightarrow>
            fetch env (parse_request (str (LYZR_API_KEY env)) file fileConfig)
              = Resolved parseResponse \<longrightarrow>
            ok parseResponse \<longrightarrow> bodyJson parseResponse = Inr parseResult \<longrightarrow>
            (\<forall>docs. getProp parseResult ''documents'' \<noteq> Inr (Some (JArr docs))) \<longrightarrow>
            fst (POST env (Inr form)) = [parse_request (str (LYZR_API_KEY env)) file fileConfig]
            \<and> res_status (snd (POST env (Inr form))) = 500
            \<and> property (res_body (snd (POST env (Inr form)))) ''success'' = Some (JBool False)
            \<and> (parseResult \<noteq> JNull \<longrightarrow>
                 res_body (snd (POST env (Inr form))) =
                   JObj [(''success'', JBool False),
                         (''error'', JStr ''Invalid response format from document parsing'')]))"
proof (intro conjI allI impI, goal_cases)
  case (1 ragIdParam response v)
  with assms show ?case
    by (simp add: GET_reaches_remote GET_response_non_array list_success_eq catch_response_def)
next
  case (2 form upload fileConfig parseResponse parseResult)
  with assms show ?case
    by (simp add: POST_def POST_reaches_parse POST_parsed_invalid)
next
  case (3 form upload fileConfig parseResponse parseResult)
  with assms show ?case
    by (simp add: POST_def POST_reaches_parse POST_parsed_invalid invalid_parse_format_def
          NextResponse_json_def null_body_status_def catch_response_def)
next
  case (4 form upload fileConfig parseResponse parseResult)
  with assms show ?case
    by (simp add: POST_def POST_reaches_parse POST_parsed_invalid invalid_parse_format_def
          NextResponse_json_def null_body_status_def catch_response_def)
next
  case (5 form upload fileConfig parseResponse parseResult)
  with assms show ?case
    by (simp add: POST_def POST_reaches_parse POST_parsed_invalid invalid_parse_format_def
          NextResponse_json_def null_body_status_def catch_response_def)
qed

text \<open>A listing that answers with an object, and a parse answer whose documents are a string.\<close>

theorem non_array_listing_is_empty_witness:
  "snd (GET (scripted_env (Some ''secret'') (Rejected [])
              (json_answer 200 ''OK'' (JObj [(''message'', JStr ''none'')]))) (Some ''kb1'')) =
     \<lparr>res_status = 200,
      res_body = JObj [(''success'', JBool True), (''documents'', JArr []),
                       (''ragId'', JStr ''kb1''),
                       (''timestamp'', JStr ''2025-01-01T00:00:00.000Z'')]\<rparr>
   \<and> POST (scripted_env (Some ''secret'')
             (json_answer 200 ''OK'' (JObj [(''documents'', JStr ''chunk1'')])) (Rejected []))
        (Inr \<lparr>form_file = Some text_file, form_ragId = Some ''kb1''\<rparr>) =
     ([parse_request ''secret'' text_file \<lparr>config_type = Txt, parser = ''txt_parser''\<rparr>],
      \<lparr>res_status = 500,
       res_body = JObj [(''success'', JBool False),
                        (''error'', JStr ''Invalid response format from document parsing'')]\<rparr>)"
proof -
  let ?listed = "JObj [(''message'', JStr ''none'')]"
  let ?parsed = "JObj [(''documents'', JStr ''chunk1'')]"
  let ?e1 = "scripted_env (Some ''secret'') (Rejected []) (json_answer 200 ''OK'' ?listed)"
  let ?e2 = "scripted_env (Some ''secret'') (json_answer 200 ''OK'' ?parsed) (Rejected [])"
  let ?r1 = "\<lparr>http_status = 200, statusText = ''OK'', bodyText = Inr [], bodyJson = Inr ?listed\<rparr>"
  let ?r2 = "\<lparr>http_status = 200, statusText = ''OK'', bodyText = Inr [], bodyJson = Inr ?parsed\<rparr>"
  let ?form = "\<lparr>form_file = Some text_file, form_ragId = Some ''kb1''\<rparr>"
  let ?cfg = "\<lparr>config_type = Txt, parser = ''txt_parser''\<rparr>"
  have key: "\<not> falsy (LYZR_API_KEY (scripted_env (Some ''secret'') p q))" for p q
    by (simp add: scripted_env_simps example_values)
  have "snd (GET ?e1 (Some ''kb1'')) =
     \<lparr>res_status = 200,
      res_body = JObj [(''success'', JBool True), (''documents'', JArr []),
                       (''ragId'', JStr (str (Some ''kb1''))), (''timestamp'', JStr (now ?e1))]\<rparr>"
  proof (rule non_array_listing_is_empty [OF key, THEN conjunct1, rule_format])
    show "\<not> falsy (Some ''kb1'')" by (simp add: example_values)
    show "fetch ?e1 (list_request (str (LYZR_API_KEY ?e1)) (str (Some ''kb1''))) = Resolved ?r1"
      by (simp add: scripted_env_simps json_answer_def)
    show "ok ?r1" by (simp add: ok_def)
    show "bodyJson ?r1 = Inr ?listed" by simp
    show "\<not> is_array ?listed" by simp
  qed
  then have g: "snd (GET ?e1 (Some ''kb1'')) =
     \<lparr>res_status = 200,
      res_body = JObj [(''success'', JBool True), (''documents'', JArr []),
                       (''ragId'', JStr ''kb1''),
                       (''timestamp'', JStr ''2025-01-01T00:00:00.000Z'')]\<rparr>"
    by (simp add: scripted_env_simps example_values)
  have "fst (POST ?e2 (Inr ?form)) = [parse_request (str (LYZR_API_KEY ?e2)) text_file ?cfg]
      \<and> res_status (snd (POST ?e2 (Inr ?form))) = 500
      \<and> property (res_body (snd (POST ?e2 (Inr ?form)))) ''success'' = Some (JBool False)
      \<and> (?parsed \<noteq> JNull \<longrightarrow>
           res_body (snd (POST ?e2 (Inr ?form))) =
             JObj [(''success'', JBool False),
                   (''error'', JStr ''Invalid response format from document parsing'')])"
  proof (rule non_array_listing_is_empty [OF key, THEN conjunct2, rule_format])
    show "form_file ?form = Some text_file" by simp
    show "\<not> falsy (form_ragId ?form)" by (simp add: example_values)
    show "FILE_TYPE_CONFIG (type text_file) = Some ?cfg" by (simp add: example_values)
    show "fetch ?e2 (parse_request (str (LYZR_API_KEY ?e2)) text_file ?cfg) = Resolved ?r2"
      by (simp add: scripted_env_simps json_answer_def)
    show "ok ?r2" by (simp add: ok_def)
    show "bodyJson ?r2 = Inr ?parsed" by simp
    show "getProp ?parsed ''documents'' \<noteq> Inr (Some (JArr docs))" for docs
      by (simp add: getProp_def)
  qed
  then have "fst (POST ?e2 (Inr ?form)) = [parse_request ''secret'' text_file ?cfg]"
    and "snd (POST ?e2 (Inr ?form)) =
      \<lparr>res_status = 500,
       res_body = JObj [(''success'', JBool False),
                        (''error'', JStr ''Invalid response format from document parsing'')]\<rparr>"
    by (simp_all add: scripted_env_simps example_values proxy_response.equality)
  with g show ?thesis by (simp add: prod_eq_iff)
qed

subsection \<open>The status of a remote failure\<close>

text \<open>
  A failed parse call is reported with status 500, not with the status the remote
  service gave (here 503).
\<close>

theorem upload_status_counterexample:
  "snd (POST (scripted_env (Some ''secret'') (text_answer 503 ''Service Unavailable'' ''busy'')
                (Rejected []))
          (Inr \<lparr>form_file = Some pdf_file, form_ragId = Some ''kb1''\<rparr>)) =
     \<lparr>res_status = 500,
      res_body =
        JObj [(''success'', JBool False),
              (''error'', JStr ''Document parsing failed: Service Unavailable''),
              (''details'', JStr ''busy'')]\<rparr>"
  by code_simp

text \<open>
  Claim C6, as the code has it. With a configured key, a non-2xx answer of a remote call
  is reported with the body \<open>{success: false, error, details}\<close> and

  \<^item> for the listing (other than 404) and for the delete call, with the remote
    service's own status, when that status is one a response with a body can carry
    (\<open>200 .. 599\<close> and not a null-body status) and, for the listing, the body of
    the answer can be read;
  \<^item> for the listing whose answer cannot be read, and for a listing or delete answer
    whose status cannot be carried, with status 500;
  \<^item> for the parse call and the train call of an upload, with status 500 always.
\<close>

theorem remote_failure_status:
  assumes "\<not> falsy (LYZR_API_KEY env)"
  shows "(\<forall>ragIdParam response errorText.
            \<not> falsy ragIdParam \<longrightarrow>
            fetch env (list_request (str (LYZR_API_KEY env)) (str ragIdParam)) = Resolved response \<longrightarrow>
            \<not> ok response \<longrightarrow> http_status response \<noteq> 404 \<longrightarrow>
            200 \<le> http_status response \<longrightarrow> http_status response \<le> 599 \<longrightarrow>
            \<not> null_body_status (http_status response) \<longrightarrow>
            bodyText response = Inr errorText \<longrightarrow>
            snd (GET env ragIdParam) =
              \<lparr>res_status = http_status response,
               res_body =
                 JObj [(''success'', JBool False),
                       (''error'', JStr (''Failed to fetch documents: '' @ statusText response)),
                       (''details'', JStr errorText)]\<rparr>)
         \<and> (\<forall>body' ragId names response.
            getProp body' ''ragId'' = Inr (Some ragId) \<longrightarrow> truthy ragId \<longrightarrow>
            getProp body' ''documents'' = Inr (Some (JArr (map JStr names))) \<longrightarrow> names \<noteq> [] \<longrightarrow>
            fetch env (delete_request (str (LYZR_API_KEY env)) ragId (map formatDoc names))
              = Resolved response \<longrightarrow>
            \<not> ok response \<longrightarrow>
            200 \<le> http_status response \<longrightarrow> http_status response \<le> 599 \<longrightarrow>
            \<not> null_body_status (http_status response) \<longrightarrow>
            snd (DELETE env (Inr body')) =
              \<lparr>res_status = http_status response,
               res_body =
                 JObj [(''success'', JBool False),
                       (''error'', JStr (''Failed to delete documents: '' @ statusText response)),
                       (''details'',
                          JStr (case bodyText response of
                                  Inl message \<Rightarrow> ''Unknown error'' | Inr t \<Rightarrow> t))]\<rparr>)
         \<and> (\<forall>form file fileConfig parseResponse.
            form_file form = Some file \<longrightarrow> \<not> falsy (form_ragId form) \<longrightarrow>
            FILE_TYPE_CONFIG (type file) = Some fileConfig \<longrightarrow>
            fetch env (parse_request (str (LYZR_API_KEY env)) file fileConfig)
              = Resolved parseResponse \<longrightarrow>
            \<not> ok parseResponse \<longrightarrow>
            snd (POST env (Inr form)) =
              \<lparr>res_status = 500,
               res_body =
                 JObj [(''success'', JBool False),
                       (''error'',
                          JStr (case bodyText parseResponse of
                                  Inl message \<Rightarrow> ''Failed to upload and train document''
                                | Inr t \<Rightarrow> ''Document parsing failed: '' @ statusText parseResponse)),
                       (''details'',
                          JStr (case bodyText parseResponse of
                                  Inl message \<Rightarrow> message | Inr t \<Rightarrow> t))]\<rparr>)
         \<and> (\<forall>form file fileConfig parseResponse parseResult docs trainResponse.
            form_file form = Some file \<longrightarrow> \<not> falsy (form_ragId form) \<longrightarrow>
            FILE_TYPE_CONFIG (type file) = Some fileConfig \<longrightarrow>
            fetch env (parse_request (str (LYZR_API_KEY env)) file fileConfig)
              = Resolved parseResponse \<longrightarrow>
            ok parseResponse \<longrightarrow> bodyJson parseResponse = Inr parseResult \<longrightarrow>
            getProp parseResult ''documents'' = Inr (Some (JArr docs)) \<longrightarrow>
            fetch env (train_request (str (LYZR_API_KEY env)) (str (form_ragId form)) (JArr docs))
              = Resolved trainResponse \<longrightarrow>
            \<not> ok trainResponse \<longrightarrow>
            snd (POST env (Inr form)) =
              \<lparr>res_status = 500,
               res_body =
                 JObj [(''success'', JBool False),
                       (''error'',
                          JStr (case bodyText trainResponse of
                                  Inl message \<Rightarrow> ''Failed to upload and train document''
                                | Inr t \<Rightarrow> ''Knowledge base training failed: ''
                                          @ statusText trainResponse)),
                       (''details'',
                          JStr (case bodyText trainResponse of
                                  Inl message \<Rightarrow> message | Inr t \<Rightarrow> t))]\<rparr>)
         \<and> (\<forall>ragIdParam response message.
            \<not> falsy ragIdParam \<longrightarrow>
            fetch env (list_request (str (LYZR_API_KEY env)) (str ragIdParam)) = Resolved response \<longrightarrow>
            \<not> ok response \<longrightarrow> http_status response \<noteq> 404 \<longrightarrow>
            bodyText response = Inl message \<longrightarrow>
            snd (GET env ragIdParam) =
              \<lparr>res_status = 500,
               res_body =
                 JObj [(''success'', JBool False),
                       (''error'', JStr ''Failed to fetch documents''),
                       (''details'', JStr message)]\<rparr>)
         \<and> (\<forall>ragIdParam response.
            \<not> falsy ragIdParam \<longrightarrow>
            fetch env (list_request (str (LYZR_API_KEY env)) (str ragIdParam)) = Resolved response \<longrightarrow>
            \<not> ok response \<longrightarrow> http_status response \<noteq> 404 \<longrightarrow>
            http_status response < 200 \<or> 599 < http_status response
              \<or> null_body_status (http_status response) \<longrightarrow>
            (\<exists>details.
               snd (GET env ragIdParam) =
                 \<lparr>res_status = 500,
                  res_body =
                    JObj [(''success'', JBool False),
                          (''error'', JStr ''Failed to fetch documents''),
                          (''details'', JStr details)]\<rparr>))
         \<and> (\<forall>body' ragId names response.
            getProp body' ''ragId'' = Inr (Some ragId) \<longrightarrow> truthy ragId \<longrightarrow>
            getProp body' ''documents'' = Inr (Some (JArr (map JStr names))) \<longrightarrow> names \<noteq> [] \<longrightarrow>
            fetch env (delete_request (str (LYZR_API_KEY env)) ragId (map formatDoc names))
              = Resolved response \<longrightarrow>
            \<not> ok response \<longrightarrow>
            http_status response < 200 \<or> 599 < http_status response
              \<or> null_body_status (http_status response) \<longrightarrow>
            (\<exists>details.
               snd (DELETE env (Inr body')) =
                 \<lparr>res_status = 500,
                  res_body =
                    JObj [(''success'', JBool False),
                          (''error'', JStr ''Failed to delete documents''),
                          (''details'', JStr details)]\<rparr>))"
proof (intro conjI allI impI, goal_cases)
  case 1
  with assms show ?case by (rule GET_remote_failure)
next
  case 2
  with assms show ?case by (rule DELETE_remote_failure)
next
  case 3
  with assms show ?case by (rule POST_parse_failure_any)
next
  case 4
  with assms show ?case by (rule POST_train_failure_any)
next
  case 5
  with assms show ?case by (rule GET_unreadable_failure)
next
  case 6
  with assms show ?case by (rule GET_status_refused)
next
  case 7
  with assms show ?case by (rule DELETE_status_refused)
qed

text \<open>
  One failing answer for each of the four remote calls, a listing whose answer cannot be
  read, and a listing and a delete answer whose status cannot be carried.
\<close>

theorem remote_failure_status_witness:
  "snd (GET (scripted_env (Some ''secret'') (Rejected [])
              (text_answer 503 ''Service Unavailable'' ''busy'')) (Some ''kb1'')) =
     \<lparr>res_status = 503,
      res_body = JObj [(''success'', JBool False),
                       (''error'', JStr ''Failed to fetch documents: Service Unavailable''),
                       (''details'', JStr ''busy'')]\<rparr>
   \<and> snd (DELETE (scripted_env (Some ''secret'') (Rejected [])
                   (text_answer 403 ''Forbidden'' ''denied''))
            (Inr (JObj [(''ragId'', JStr ''kb1''), (''documents'', JArr [JStr ''a.pdf''])]))) =
     \<lparr>res_status = 403,
      res_body = JObj [(''success'', JBool False),
                       (''error'', JStr ''Failed to delete documents: Forbidden''),
                       (''details'', JStr ''denied'')]\<rparr>
   \<and> snd (POST (scripted_env (Some ''secret'')
                 (text_answer 503 ''Service Unavailable'' ''busy'') (Rejected []))
            (Inr \<lparr>form_file = Some pdf_file, form_ragId = Some ''kb1''\<rparr>)) =
     \<lparr>res_status = 500,
      res_body = JObj [(''success'', JBool False),
                       (''error'', JStr ''Document parsing failed: Service Unavailable''),
                       (''details'', JStr ''busy'')]\<rparr>
   \<and> snd (POST (scripted_env (Some ''secret'')
                 (json_answer 200 ''OK'' (JObj [(''documents'', JArr [JStr ''chunk1''])]))
                 (text_answer 502 ''Bad Gateway'' ''down''))
            (Inr \<lparr>form_file = Some text_file, form_ragId = Some ''kb1''\<rparr>)) =
     \<lparr>res_status = 500,
      res_body = JObj [(''success'', JBool False),
                       (''error'', JStr ''Knowledge base training failed: Bad Gateway''),
                       (''details'', JStr ''down'')]\<rparr>
   \<and> snd (GET (scripted_env (Some ''secret'') (Rejected [])
              (unreadable_answer 503 ''Service Unavailable'' ''terminated'')) (Some ''kb1'')) =
     \<lparr>res_status = 500,
      res_body = JObj [(''success'', JBool False),
                       (''error'', JStr ''Failed to fetch documents''),
                       (''details'', JStr ''terminated'')]\<rparr>
   \<and> res_status (snd (GET (scripted_env (Some ''secret'') (Rejected [])
              (text_answer 304 ''Not Modified'' [])) (Some ''kb1''))) = 500
   \<and> res_status (snd (DELETE (scripted_env (Some ''secret'') (Rejected [])
                   (text_answer 999 ''Denied'' ''denied''))
            (Inr (JObj [(''ragId'', JStr ''kb1''), (''documents'', JArr [JStr ''a.pdf''])])))) = 500"
proof -
  let ?busy = "\<lparr>http_status = 503, statusText = ''Service Unavailable'', bodyText = Inr ''busy'',
                 bodyJson = Inl ''Unexpected token''\<rparr>"
  let ?denied = "\<lparr>http_status = 403, statusText = ''Forbidden'', bodyText = Inr ''denied'',
                   bodyJson = Inl ''Unexpected token''\<rparr>"
  let ?down = "\<lparr>http_status = 502, statusText = ''Bad Gateway'', bodyText = Inr ''down'',
                 bodyJson = Inl ''Unexpected token''\<rparr>"
  let ?cut = "\<lparr>http_status = 503, statusText = ''Service Unavailable'',
                bodyText = Inl ''terminated'', bodyJson = Inl ''terminated''\<rparr>"
  let ?same = "\<lparr>http_status = 304, statusText = ''Not Modified'', bodyText = Inr [],
                 bodyJson = Inl ''Unexpected token''\<rparr>"
  let ?odd = "\<lparr>http_status = 999, statusText = ''Denied'', bodyText = Inr ''denied'',
                bodyJson = Inl ''Unexpected token''\<rparr>"
  let ?parsed = "JObj [(''documents'', JArr [JStr ''chunk1''])]"
  let ?chunks = "\<lparr>http_status = 200, statusText = ''OK'', bodyText = Inr [],
                   bodyJson = Inr ?parsed\<rparr>"
  let ?e1 = "scripted_env (Some ''secret'') (Rejected []) (text_answer 503 ''Service Unavailable'' ''busy'')"
  let ?e2 = "scripted_env (Some ''secret'') (Rejected []) (text_answer 403 ''Forbidden'' ''denied'')"
  let ?e3 = "scripted_env (Some ''secret'') (text_answer 503 ''Service Unavailable'' ''busy'') (Rejected [])"
  let ?e4 = "scripted_env (Some ''secret'') (json_answer 200 ''OK'' ?parsed)
               (text_answer 502 ''Bad Gateway'' ''down'')"
  let ?e5 = "scripted_env (Some ''secret'') (Rejected [])
               (unreadable_answer 503 ''Service Unavailable'' ''terminated'')"
  let ?e6 = "scripted_env (Some ''secret'') (Rejected []) (text_answer 304 ''Not Modified'' [])"
  let ?e7 = "scripted_env (Some ''secret'') (Rejected []) (text_answer 999 ''Denied'' ''denied'')"
  let ?body = "JObj [(''ragId'', JStr ''kb1''), (''documents'', JArr [JStr ''a.pdf''])]"
  have key: "\<not> falsy (LYZR_API_KEY (scripted_env (Some ''secret'') p q))" for p q
    by (simp add: scripted_env_simps example_values)
  note t = remote_failure_status [OF key]
  have "snd (GET ?e1 (Some ''kb1'')) =
     \<lparr>res_status = http_status ?busy,
      res_body = JObj [(''success'', JBool False),
                       (''error'', JStr (''Failed to fetch documents: '' @ statusText ?busy)),
                       (''details'', JStr ''busy'')]\<rparr>"
  proof (rule t [THEN conjunct1, rule_format])
    show "\<not> falsy (Some ''kb1'')" by (simp add: example_values)
    show "fetch ?e1 (list_request (str (LYZR_API_KEY ?e1)) (str (Some ''kb1''))) = Resolved ?busy"
      by (simp add: scripted_env_simps text_answer_def)
  qed (simp_all add: ok_def null_body_status_def)
  moreover have "snd (DELETE ?e2 (Inr ?body)) =
     \<lparr>res_status = http_status ?denied,
      res_body = JObj [(''success'', JBool False),
                       (''error'', JStr (''Failed to delete documents: '' @ statusText ?denied)),
                       (''details'', JStr (case bodyText ?denied of
                                  Inl message \<Rightarrow> ''Unknown error'' | Inr t \<Rightarrow> t))]\<rparr>"
  proof (rule t [THEN conjunct2, THEN conjunct1, rule_format])
    show "getProp ?body ''ragId'' = Inr (Some (JStr ''kb1''))" by (simp add: getProp_def)
    show "truthy (JStr ''kb1'')" by simp
    show "getProp ?body ''documents'' = Inr (Some (JArr (map JStr [''a.pdf''])))"
      by (simp add: getProp_def)
    show "fetch ?e2 (delete_request (str (LYZR_API_KEY ?e2)) (JStr ''kb1'') (map formatDoc [''a.pdf'']))
            = Resolved ?denied"
      by (simp add: scripted_env_simps text_answer_def)
  qed (simp_all add: ok_def null_body_status_def)
  moreover have "snd (POST ?e3 (Inr \<lparr>form_file = Some pdf_file, form_ragId = Some ''kb1''\<rparr>)) =
     \<lparr>res_status = 500,
      res_body = JObj [(''success'', JBool False),
                       (''error'', JStr (case bodyText ?busy of
                                  Inl message \<Rightarrow> ''Failed to upload and train document''
                                | Inr t \<Rightarrow> ''Document parsing failed: '' @ statusText ?busy)),
                       (''details'', JStr (case bodyText ?busy of
                                  Inl message \<Rightarrow> message | Inr t \<Rightarrow> t))]\<rparr>"
  proof (rule t [THEN conjunct2, THEN conjunct2, THEN conjunct1, rule_format])
    show "form_file \<lparr>form_file = Some pdf_file, form_ragId = Some ''kb1''\<rparr> = Some pdf_file"
      by simp
    show "FILE_TYPE_CONFIG (type pdf_file) = Some \<lparr>config_type = Pdf, parser = ''pypdf''\<rparr>"
      by (simp add: example_values)
    show "fetch ?e3 (parse_request (str (LYZR_API_KEY ?e3)) pdf_file
            \<lparr>config_type = Pdf, parser = ''pypdf''\<rparr>) = Resolved ?busy"
      by (simp add: scripted_env_simps text_answer_def)
  qed (simp_all add: ok_def example_values)
  moreover have "snd (POST ?e4 (Inr \<lparr>form_file = Some text_file, form_ragId = Some ''kb1''\<rparr>)) =
     \<lparr>res_status = 500,
      res_body = JObj [(''success'', JBool False),
                       (''error'', JStr (case bodyText ?down of
                                  Inl message \<Rightarrow> ''Failed to upload and train document''
                                | Inr t \<Rightarrow> ''Knowledge base training failed: '' @ statusText ?down)),
                       (''details'', JStr (case bodyText ?down of
                                  Inl message \<Rightarrow> message | Inr t \<Rightarrow> t))]\<rparr>"
  proof (rule t [THEN conjunct2, THEN conjunct2, THEN conjunct2, THEN conjunct1, rule_format])
    show "form_file \<lparr>form_file = Some text_file, form_ragId = Some ''kb1''\<rparr> = Some text_file"
      by simp
    show "FILE_TYPE_CONFIG (type text_file) = Some \<lparr>config_type = Txt, parser = ''txt_parser''\<rparr>"
      by (simp add: example_values)
    show "fetch ?e4 (parse_request (str (LYZR_API_KEY ?e4)) text_file
            \<lparr>config_type = Txt, parser = ''txt_parser''\<rparr>) = Resolved ?chunks"
      by (simp add: scripted_env_simps json_answer_def)
    show "bodyJson ?chunks = Inr ?parsed" by simp
    show "getProp ?parsed ''documents'' = Inr (Some (JArr [JStr ''chunk1'']))"
      by (simp add: getProp_def)
    show "fetch ?e4 (train_request (str (LYZR_API_KEY ?e4))
             (str (form_ragId \<lparr>form_file = Some text_file, form_ragId = Some ''kb1''\<rparr>))
             (JArr [JStr ''chunk1''])) = Resolved ?down"
      by (simp add: scripted_env_simps text_answer_def)
  qed (simp_all add: ok_def example_values)
  moreover have "snd (GET ?e5 (Some ''kb1'')) =
     \<lparr>res_status = 500,
      res_body = JObj [(''success'', JBool False),
                       (''error'', JStr ''Failed to fetch documents''),
                       (''details'', JStr ''terminated'')]\<rparr>"
  proof (rule t [THEN conjunct2, THEN conjunct2, THEN conjunct2, THEN conjunct2, THEN conjunct1,
                 rule_format])
    show "\<not> falsy (Some ''kb1'')" by (simp add: example_values)
    show "fetch ?e5 (list_request (str (LYZR_API_KEY ?e5)) (str (Some ''kb1''))) = Resolved ?cut"
      by (simp add: scripted_env_simps unreadable_answer_def)
  qed (simp_all add: ok_def)
  moreover have "res_status (snd (GET ?e6 (Some ''kb1''))) = 500"
  proof -
    have "\<exists>details. snd (GET ?e6 (Some ''kb1'')) =
            \<lparr>res_status = 500,
             res_body = JObj [(''success'', JBool False),
                              (''error'', JStr ''Failed to fetch documents''),
                              (''details'', JStr details)]\<rparr>"
    proof (rule t [THEN conjunct2, THEN conjunct2, THEN conjunct2, THEN conjunct2, THEN conjunct2,
                   THEN conjunct1, rule_format])
      show "\<not> falsy (Some ''kb1'')" by (simp add: example_values)
      show "fetch ?e6 (list_request (str (LYZR_API_KEY ?e6)) (str (Some ''kb1''))) = Resolved ?same"
        by (simp add: scripted_env_simps text_answer_def)
    qed (simp_all add: ok_def null_body_status_def)
    then show ?thesis by auto
  qed
  moreover have "res_status (snd (DELETE ?e7 (Inr ?body))) = 500"
  proof -
    have "\<exists>details. snd (DELETE ?e7 (Inr ?body)) =
            \<lparr>res_status = 500,
             res_body = JObj [(''success'', JBool False),
                              (''error'', JStr ''Failed to delete documents''),
                              (''details'', JStr details)]\<rparr>"
    proof (rule t [THEN conjunct2, THEN conjunct2, THEN conjunct2, THEN conjunct2, THEN conjunct2,
                   THEN conjunct2, rule_format])
      show "getProp ?body ''ragId'' = Inr (Some (JStr ''kb1''))" by (simp add: getProp_def)
      show "truthy (JStr ''kb1'')" by simp
      show "getProp ?body ''documents'' = Inr (Some (JArr (map JStr [''a.pdf''])))"
        by (simp add: getProp_def)
      show "fetch ?e7 (delete_request (str (LYZR_API_KEY ?e7)) (JStr ''kb1'') (map formatDoc [''a.pdf'']))
              = Resolved ?odd"
        by (simp add: scripted_env_simps text_answer_def)
    qed (simp_all add: ok_def null_body_status_def)
    then show ?thesis by auto
  qed
  ultimately show ?thesis by simp
qed

end
